theory Spec2Isabelle
  imports
    Complex_Main
    "HOL-Library.Multiset"
    "HOL-Library.Char_ord"
    "HOL-Library.List_Lexorder"
    "HOL-Library.Product_Lexorder"
begin

section \<open>JavaScript values at the HTTP boundary\<close>

text \<open>
  The two React components (\<^verbatim>\<open>Plans\<close> in \<^verbatim>\<open>src/src/components/Plans.js\<close> and
  \<^verbatim>\<open>Dashboard\<close> in \<^verbatim>\<open>src/unnamed/part_001\<close>) receive whatever JSON the backend
  answers with and read it without any type check. Their data is therefore modelled as
  untyped JSON values, together with \<^verbatim>\<open>undefined\<close>, which a missing property reads as.
  An object is the association list of its own properties; the first binding of a key is
  the one in effect.
\<close>

datatype jsval =
    JUndefined
  | JNull
  | JBool bool
  | JNum real
  | JStr string
  | JArr "jsval list"
  | JObj "(string \<times> jsval) list"

datatype js_error = TypeError

text \<open>
  A computation yields the list of property reads it performed, each as the value read
  from and the property name, and either the exception thrown or its value.
\<close>

type_synonym access = "jsval \<times> string"
type_synonym 'a js = "access list \<times> (js_error + 'a)"

definition js_return :: "'a \<Rightarrow> 'a js" where
  "js_return x = ([], Inr x)"

definition js_bind :: "'a js \<Rightarrow> ('a \<Rightarrow> 'b js) \<Rightarrow> 'b js" where
  "js_bind m f =
     (case m of
        (t, Inl e) \<Rightarrow> (t, Inl e)
      | (t, Inr x) \<Rightarrow> (case f x of (t', r) \<Rightarrow> (t @ t', r)))"

fun js_traverse :: "'a js list \<Rightarrow> 'a list js" where
  "js_traverse [] = js_return []"
| "js_traverse (m # ms) =
     js_bind m (\<lambda>x. js_bind (js_traverse ms) (\<lambda>xs. js_return (x # xs)))"

text \<open>JavaScript's truthiness: \<^verbatim>\<open>undefined\<close>, \<^verbatim>\<open>null\<close>, \<^verbatim>\<open>false\<close>, \<^verbatim>\<open>0\<close> and
  the empty string are falsy, every array and object is truthy.\<close>

fun truthy :: "jsval \<Rightarrow> bool" where
  "truthy JUndefined = False"
| "truthy JNull = False"
| "truthy (JBool b) = b"
| "truthy (JNum n) = (n \<noteq> 0)"
| "truthy (JStr s) = (s \<noteq> [])"
| "truthy (JArr xs) = True"
| "truthy (JObj kvs) = True"

fun nullish :: "jsval \<Rightarrow> bool" where
  "nullish JUndefined = True"
| "nullish JNull = True"
| "nullish v = False"

text \<open>
  The value of \<^verbatim>\<open>v.k\<close> for the property names the components read by name
  (\<^verbatim>\<open>best_plan\<close>, \<^verbatim>\<open>name\<close>, \<^verbatim>\<open>features\<close>, \<^verbatim>\<open>anomaly_dates\<close>, \<^verbatim>\<open>length\<close>, ...): an own
  property of an object, the length of an array or a string, and \<^verbatim>\<open>undefined\<close>
  otherwise. The method \<^verbatim>\<open>map\<close> and numeric indices are modelled apart
  (\<open>js_map\<close>, \<open>get_index\<close>).
\<close>

fun own_prop :: "jsval \<Rightarrow> string \<Rightarrow> jsval" where
  "own_prop (JObj kvs) k = (case map_of kvs k of Some v \<Rightarrow> v | None \<Rightarrow> JUndefined)"
| "own_prop (JArr xs) k = (if k = ''length'' then JNum (real (length xs)) else JUndefined)"
| "own_prop (JStr s) k = (if k = ''length'' then JNum (real (length s)) else JUndefined)"
| "own_prop v k = JUndefined"

text \<open>Reading a property of \<^verbatim>\<open>undefined\<close> or \<^verbatim>\<open>null\<close> throws a TypeError.\<close>

definition get_prop :: "jsval \<Rightarrow> string \<Rightarrow> jsval js" where
  "get_prop v k = ([(v, k)], if nullish v then Inl TypeError else Inr (own_prop v k))"

text \<open>
  \<^verbatim>\<open>v.map((x, index) => ...)\<close>: only an array has a callable \<^verbatim>\<open>map\<close>; on
  \<^verbatim>\<open>undefined\<close> and \<^verbatim>\<open>null\<close> the read throws, on any other JSON value the call of a
  non-function throws. The callback runs on the elements from left to right.
\<close>

definition js_map :: "jsval \<Rightarrow> (jsval \<Rightarrow> nat \<Rightarrow> 'a js) \<Rightarrow> 'a list js" where
  "js_map v f =
     (case v of
        JArr xs \<Rightarrow>
          js_bind ([(v, ''map'')], Inr ())
            (\<lambda>_. js_traverse (map (\<lambda>(index, x). f x index) (zip [0..<length xs] xs)))
      | _ \<Rightarrow> ([(v, ''map'')], Inl TypeError))"

fun decimal :: "nat \<Rightarrow> string" where
  "decimal n =
     (if n < 10 then [''0123456789'' ! n]
      else decimal (n div 10) @ [''0123456789'' ! (n mod 10)])"

declare decimal.simps [simp del]

text \<open>\<^verbatim>\<open>v[index]\<close> for a number \<^verbatim>\<open>index\<close>: out of range an array or a string gives
  \<^verbatim>\<open>undefined\<close>; an object is asked for the property named by the decimal numeral.\<close>

definition get_index :: "jsval \<Rightarrow> nat \<Rightarrow> jsval js" where
  "get_index v i =
     ([(v, decimal i)],
      case v of
        JUndefined \<Rightarrow> Inl TypeError
      | JNull \<Rightarrow> Inl TypeError
      | JArr xs \<Rightarrow> Inr (if i < length xs then xs ! i else JUndefined)
      | JStr s \<Rightarrow> Inr (if i < length s then JStr [s ! i] else JUndefined)
      | JObj kvs \<Rightarrow> Inr (own_prop v (decimal i))
      | _ \<Rightarrow> Inr JUndefined)"

text \<open>
  \<^verbatim>\<open>ToNumber\<close> where the conversion does not throw (see \<open>to_primitive_throws\<close> below),
  with \<open>None\<close> for \<^verbatim>\<open>NaN\<close>. The conversion of a string is the
  runtime's \<^verbatim>\<open>StringToNumber\<close>, taken as the parameter \<open>sn\<close>. An array converts
  through its \<^verbatim>\<open>join(',')\<close>: the empty array gives \<^verbatim>\<open>0\<close>, a one-element array
  converts as the string of its element, and the comma of a longer one is no number.
\<close>

fun to_number :: "(string \<Rightarrow> real option) \<Rightarrow> jsval \<Rightarrow> real option" where
  "to_number sn JUndefined = None"
| "to_number sn JNull = Some 0"
| "to_number sn (JBool b) = Some (if b then 1 else 0)"
| "to_number sn (JNum n) = Some n"
| "to_number sn (JStr s) = sn s"
| "to_number sn (JObj kvs) = None"
| "to_number sn (JArr []) = Some 0"
| "to_number sn (JArr [JUndefined]) = Some 0"
| "to_number sn (JArr [JNull]) = Some 0"
| "to_number sn (JArr [JBool b]) = None"
| "to_number sn (JArr [JNum n]) = Some n"
| "to_number sn (JArr [JStr s]) = sn s"
| "to_number sn (JArr [JObj kvs]) = None"
| "to_number sn (JArr [JArr xs]) = to_number sn (JArr xs)"
| "to_number sn (JArr (x # y # zs)) = None"

text \<open>
  The conversion of an object to a primitive throws a TypeError when neither
  \<^verbatim>\<open>valueOf\<close> nor \<^verbatim>\<open>toString\<close> gives a primitive. \<^verbatim>\<open>Object.prototype.valueOf\<close> returns
  the object itself, and an own property of a JSON object is never callable, so the
  conversion of an object throws exactly when the object has an own \<^verbatim>\<open>toString\<close>
  (without one it gives \<^verbatim>\<open>[object Object]\<close>). An array converts through \<^verbatim>\<open>join\<close>,
  which converts every element but \<^verbatim>\<open>null\<close> and \<^verbatim>\<open>undefined\<close>, so it throws exactly
  when one of its elements does. This holds for every hint of \<^verbatim>\<open>ToPrimitive\<close>.
\<close>

fun to_primitive_throws :: "jsval \<Rightarrow> bool" where
  "to_primitive_throws (JObj kvs) = (map_of kvs ''toString'' \<noteq> None)"
| "to_primitive_throws (JArr xs) = list_ex to_primitive_throws xs"
| "to_primitive_throws v = False"

text \<open>
  \<^verbatim>\<open>ToString\<close>, as a template literal and the \<^verbatim>\<open>'' + key\<close> of \<^verbatim>\<open>React.createElement\<close>
  perform it. The text is not computed: the value converted stands for its string. The
  runtime's own reads of \<^verbatim>\<open>toString\<close> and \<^verbatim>\<open>valueOf\<close> are not listed among the
  property reads.
\<close>

definition js_to_string :: "jsval \<Rightarrow> jsval js" where
  "js_to_string v = ([], if to_primitive_throws v then Inl TypeError else Inr v)"

text \<open>\<^verbatim>\<open>v > 0\<close>: it throws when the conversion of \<^verbatim>\<open>v\<close> to a primitive throws, and is
  false when \<^verbatim>\<open>v\<close> converts to \<^verbatim>\<open>NaN\<close>.\<close>

definition js_gt_zero :: "(string \<Rightarrow> real option) \<Rightarrow> jsval \<Rightarrow> bool js" where
  "js_gt_zero sn v =
     ([], if to_primitive_throws v then Inl TypeError
          else Inr (case to_number sn v of Some n \<Rightarrow> n > 0 | None \<Rightarrow> False))"

datatype http_outcome = Rejected | Resolved jsval

section \<open>The Plans component\<close>

record plans_state =
  plans :: jsval
  loading :: bool
  error :: jsval

definition initial_plans_state :: plans_state where
  "initial_plans_state = \<lparr>plans = JNull, loading = True, error = JNull\<rparr>"

text \<open>\<^verbatim>\<open>fetchPlans\<close>: the promise of \<^verbatim>\<open>axios.get\<close> either resolves with a response whose
  \<^verbatim>\<open>data\<close> is stored, or rejects and the catch block stores the message.\<close>

definition fetchPlans :: "http_outcome \<Rightarrow> plans_state \<Rightarrow> plans_state" where
  "fetchPlans outcome st =
     (case outcome of
        Resolved d \<Rightarrow> st\<lparr>plans := d, loading := False\<rparr>
      | Rejected \<Rightarrow> st\<lparr>error := JStr ''Failed to fetch electricity plans'', loading := False\<rparr>)"

text \<open>What the component returns: one of its four views. A slot of the grid is a card,
  or the falsy value that \<^verbatim>\<open>plans.slot && (...)\<close> evaluates to, which React draws no
  card for.\<close>

datatype plan_card =
  PlanCard (card_heading: string) (card_name: jsval) (card_price: jsval)
           (card_features: "(nat \<times> jsval) list")

datatype slot_elem = Card plan_card | Falsy jsval

datatype plans_view =
    LoadingView
  | ErrorView jsval
  | NoPlansView
  | PlanGridView slot_elem slot_elem slot_elem

definition plan_slot :: "string \<Rightarrow> string \<Rightarrow> jsval \<Rightarrow> slot_elem js" where
  "plan_slot heading key pl =
     js_bind (get_prop pl key) (\<lambda>guard.
       if \<not> truthy guard then js_return (Falsy guard)
       else
         js_bind (get_prop pl key) (\<lambda>p1. js_bind (get_prop p1 ''name'') (\<lambda>nm.
         js_bind (get_prop pl key) (\<lambda>p2. js_bind (get_prop p2 ''price'') (\<lambda>pr.
         js_bind (get_prop pl key) (\<lambda>p3. js_bind (get_prop p3 ''features'') (\<lambda>fs.
         js_bind (js_map fs (\<lambda>feature index. js_return (index, feature))) (\<lambda>items.
         js_return (Card (PlanCard heading nm pr items))))))))))"

definition Plans :: "plans_state \<Rightarrow> plans_view js" where
  "Plans st =
     (if loading st then js_return LoadingView
      else if truthy (error st) then js_return (ErrorView (error st))
      else if \<not> truthy (plans st) then js_return NoPlansView
      else
        js_bind (plan_slot ''Best Plan for You'' ''best_plan'' (plans st)) (\<lambda>b.
        js_bind (plan_slot ''Second Best Option'' ''second_best'' (plans st)) (\<lambda>s.
        js_bind (plan_slot ''Third Best Option'' ''third_best'' (plans st)) (\<lambda>t.
        js_return (PlanGridView b s t)))))"

text \<open>
  What a slot of the grid comes to when its rendering does not throw: nothing but the
  slot's own falsy value, or the card with the slot's \<^verbatim>\<open>name\<close>, \<^verbatim>\<open>price\<close> and the
  elements of its \<^verbatim>\<open>features\<close> with their indices.
\<close>

fun is_array :: "jsval \<Rightarrow> bool" where
  "is_array (JArr xs) = True"
| "is_array v = False"

fun array_items :: "jsval \<Rightarrow> jsval list" where
  "array_items (JArr xs) = xs"
| "array_items v = []"

definition slot_card :: "string \<Rightarrow> jsval \<Rightarrow> slot_elem" where
  "slot_card heading v =
     Card (PlanCard heading (own_prop v ''name'') (own_prop v ''price'')
       (zip [0..<length (array_items (own_prop v ''features''))]
            (array_items (own_prop v ''features''))))"

definition slot_view :: "string \<Rightarrow> jsval \<Rightarrow> slot_elem" where
  "slot_view heading v = (if truthy v then slot_card heading v else Falsy v)"

fun is_Card :: "slot_elem \<Rightarrow> bool" where
  "is_Card (Card c) = True"
| "is_Card (Falsy v) = False"

text \<open>A plan as JSON: an object that carries an array under \<^verbatim>\<open>features\<close>. A slot the
  component can draw is falsy or carries such an array.\<close>

definition is_plan_json :: "jsval \<Rightarrow> bool" where
  "is_plan_json v = (case v of JObj kvs \<Rightarrow> is_array (own_prop v ''features'') | _ \<Rightarrow> False)"

definition slot_ok :: "jsval \<Rightarrow> string \<Rightarrow> bool" where
  "slot_ok pl key =
     (if truthy (own_prop pl key) then is_array (own_prop (own_prop pl key) ''features'')
      else True)"

definition slots_ok :: "jsval \<Rightarrow> bool" where
  "slots_ok pl \<longleftrightarrow> slot_ok pl ''best_plan'' \<and> slot_ok pl ''second_best'' \<and> slot_ok pl ''third_best''"

section \<open>The Dashboard component\<close>

text \<open>The chosen file is opaque to the component: its name, or \<open>None\<close> when
  \<^verbatim>\<open>event.target.files[0]\<close> is \<^verbatim>\<open>undefined\<close>. The state variable \<^verbatim>\<open>file\<close> is
  written \<open>file'\<close>, \<open>file\<close> being a reserved word.\<close>

record dashboard_state =
  file' :: "string option"
  analysis :: jsval
  anomalies :: jsval

definition initial_dashboard_state :: dashboard_state where
  "initial_dashboard_state = \<lparr>file' = None, analysis = JNull, anomalies = JNull\<rparr>"

text \<open>
  \<^verbatim>\<open>handleFileUpload\<close>: the file is stored before the request. Inside the \<^verbatim>\<open>try\<close>, the
  two setters run in order, each after reading its argument from \<^verbatim>\<open>response.data\<close>;
  a rejected request or a throwing read jumps to the \<^verbatim>\<open>catch\<close>, which only logs.
\<close>

definition handleFileUpload ::
    "string option \<Rightarrow> http_outcome \<Rightarrow> dashboard_state \<Rightarrow> dashboard_state" where
  "handleFileUpload f outcome st =
     (let st1 = st\<lparr>file' := f\<rparr> in
      case outcome of
        Rejected \<Rightarrow> st1
      | Resolved d \<Rightarrow>
          (case snd (get_prop d ''analysis'') of
             Inl e \<Rightarrow> st1
           | Inr a \<Rightarrow>
               (let st2 = st1\<lparr>analysis := a\<rparr> in
                case snd (get_prop d ''anomalies'') of
                  Inl e \<Rightarrow> st2
                | Inr an \<Rightarrow> st2\<lparr>anomalies := an\<rparr>)))"

datatype anomaly_line =
  AnomalyLine (line_key: jsval) (line_date: jsval) (line_usage: jsval)

datatype anomaly_elem = AnomalyCard "anomaly_line list" | NoCard jsval

text \<open>
  The anomaly card of the Dashboard:
  \<^verbatim>\<open>anomalies && anomalies.anomaly_dates.length > 0 && (<Card> ... </Card>)\<close>, whose body
  maps every date to a line holding the date and \<^verbatim>\<open>anomalies.anomaly_values[index]\<close>.
  The line is made by \<^verbatim>\<open>React.createElement\<close> once its children are evaluated, and
  \<^verbatim>\<open>key={date}\<close> is converted to a string there.
\<close>

definition Dashboard_anomalies ::
    "(string \<Rightarrow> real option) \<Rightarrow> jsval \<Rightarrow> anomaly_elem js" where
  "Dashboard_anomalies sn an =
     (if \<not> truthy an then js_return (NoCard an)
      else
        js_bind (get_prop an ''anomaly_dates'') (\<lambda>ds.
        js_bind (get_prop ds ''length'') (\<lambda>n.
        js_bind (js_gt_zero sn n) (\<lambda>positive.
          if \<not> positive then js_return (NoCard (JBool False))
          else
            js_bind (get_prop an ''anomaly_dates'') (\<lambda>ds2.
            js_bind (js_map ds2 (\<lambda>date index.
                js_bind (get_prop an ''anomaly_values'') (\<lambda>vs.
                js_bind (get_index vs index) (\<lambda>usage.
                js_bind (js_to_string date) (\<lambda>key.
                js_return (AnomalyLine key date usage)))))) (\<lambda>lines.
            js_return (AnomalyCard lines)))))))"

text \<open>
  The two charts: \<^verbatim>\<open>analysis && (<Grid> ... </Grid>)\<close>, each image with the source
  \<^verbatim>\<open>data:image/png;base64,${analysis.monthly_plot}\<close> (and \<^verbatim>\<open>weekly_plot\<close>). The
  template literal converts the value to a string; the view keeps the value converted.
\<close>

datatype analysis_elem =
  AnalysisGrid (monthly_plot_src: jsval) (weekly_plot_src: jsval) | NoGrid jsval

definition Dashboard_analysis :: "jsval \<Rightarrow> analysis_elem js" where
  "Dashboard_analysis a =
     (if \<not> truthy a then js_return (NoGrid a)
      else
        js_bind (get_prop a ''monthly_plot'') (\<lambda>m.
        js_bind (js_to_string m) (\<lambda>monthly_src.
        js_bind (get_prop a ''weekly_plot'') (\<lambda>w.
        js_bind (js_to_string w) (\<lambda>weekly_src.
        js_return (AnalysisGrid monthly_src weekly_src))))))"

text \<open>What the Dashboard returns below its upload area: the charts, then the anomaly
  card.\<close>

datatype dashboard_view = DashboardView analysis_elem anomaly_elem

definition Dashboard :: "(string \<Rightarrow> real option) \<Rightarrow> dashboard_state \<Rightarrow> dashboard_view js" where
  "Dashboard sn st =
     js_bind (Dashboard_analysis (analysis st)) (\<lambda>charts.
     js_bind (Dashboard_anomalies sn (anomalies st)) (\<lambda>card.
     js_return (DashboardView charts card)))"

section \<open>The analysis and recommendation engine\<close>

text \<open>
  The engine that validates usage rows, aggregates them, detects anomalies and ranks plans
  is the backend the two components call (\<^verbatim>\<open>/api/upload\<close>, \<^verbatim>\<open>/api/plans\<close>). None of
  its code is among the sources, so each definition of this section follows the words of
  the specification.
\<close>

subsection \<open>Usage series\<close>

text \<open>Modelled from the spec: a calendar date of the absent UsageReading, as year, month
  and day; the chronological order is the lexicographic order of the triple.\<close>

type_synonym calendar_date = "nat \<times> nat \<times> nat"

text \<open>Modelled from the spec: the absent data model \<^verbatim>\<open>UsageReading\<close>,
  \<^verbatim>\<open>{date: calendar date, usage_kwh: non-negative real}\<close>.\<close>

record UsageReading =
  date :: calendar_date
  usage_kwh :: real

text \<open>Modelled from the spec: the absent \<^verbatim>\<open>UsageSeries\<close>, an ordered sequence of
  readings.\<close>

type_synonym UsageSeries = "UsageReading list"

text \<open>Modelled from the spec: the invariant of the absent \<^verbatim>\<open>UsageSeries\<close> (section 3):
  usage non-negative, dates unique, sorted ascending by date.\<close>

definition valid_series :: "UsageSeries \<Rightarrow> bool" where
  "valid_series series \<longleftrightarrow>
     list_all (\<lambda>r. 0 \<le> usage_kwh r) series \<and> sorted_wrt (<) (map date series)"

text \<open>Modelled from the spec: the two validation failures of the absent constructor
  (sections 4.1 and 7).\<close>

datatype validation_error = MalformedRecord | DuplicateDate

text \<open>Modelled from the spec: a raw \<^verbatim>\<open>(date-string, usage-number)\<close> pair handed over by
  the absent upload handler; \<open>None\<close> is a usage token that is not numeric.\<close>

type_synonym raw_row = "string \<times> real option"

text \<open>Modelled from the spec: the semantic validation of one row by the absent
  constructor (section 4.1): a row is malformed when its date cannot be parsed or its
  usage is non-numeric or negative. The date parser \<open>pd\<close> is a parameter.\<close>

definition validate_row :: "(string \<Rightarrow> calendar_date option) \<Rightarrow> raw_row \<Rightarrow> UsageReading option" where
  "validate_row pd row =
     (case pd (fst row) of
        None \<Rightarrow> None
      | Some d \<Rightarrow>
          (case snd row of
             None \<Rightarrow> None
           | Some u \<Rightarrow> if u < 0 then None else Some \<lparr>date = d, usage_kwh = u\<rparr>))"

text \<open>Modelled from the spec: the absent UsageSeries constructor (section 4.1). It fails
  with \<^verbatim>\<open>MalformedRecord\<close> when a row is malformed, with \<^verbatim>\<open>DuplicateDate\<close> when two
  readings share a date, and otherwise returns the readings sorted ascending by date.
  Rows are turned into readings first: \<^verbatim>\<open>DuplicateDate\<close> is the failure of two
  \<^emph>\<open>readings\<close> sharing a date, a reading has a calendar date and a non-negative usage
  (section 3), and section 4.1 names \<^verbatim>\<open>MalformedRecord\<close> first. So an input with a
  malformed row fails with \<^verbatim>\<open>MalformedRecord\<close> whatever its dates.\<close>

definition UsageSeries_construct ::
    "(string \<Rightarrow> calendar_date option) \<Rightarrow> raw_row list \<Rightarrow> validation_error + UsageSeries" where
  "UsageSeries_construct pd rows =
     (case those (map (validate_row pd) rows) of
        None \<Rightarrow> Inl MalformedRecord
      | Some readings \<Rightarrow>
          if distinct (map date readings) then Inr (sort_key date readings)
          else Inl DuplicateDate)"

subsection \<open>Aggregation\<close>

text \<open>Modelled from the spec: the absent \<^verbatim>\<open>MonthlySummary\<close>,
  \<^verbatim>\<open>{period_label: string, total_kwh: real, reading_count: integer}\<close>.\<close>

record MonthlySummary =
  period_label :: string
  total_kwh :: real
  reading_count :: nat

text \<open>Modelled from the spec: the \<^verbatim>\<open>(year, month)\<close> of a reading's date, the grouping key
  of the absent \<^verbatim>\<open>monthly\<close> operation.\<close>

definition year_month :: "UsageReading \<Rightarrow> nat \<times> nat" where
  "year_month r = (fst (date r), fst (snd (date r)))"

text \<open>Modelled from the spec: the summary of one group of the absent \<^verbatim>\<open>monthly\<close>
  operation: the usage of the group's readings summed, and their number. The format of
  the label is not specified and is the parameter \<open>label\<close>.\<close>

definition month_summary ::
    "(nat \<times> nat \<Rightarrow> string) \<Rightarrow> UsageSeries \<Rightarrow> nat \<times> nat \<Rightarrow> MonthlySummary" where
  "month_summary label series k =
     \<lparr>period_label = label k,
      total_kwh = sum_list (map usage_kwh (filter (\<lambda>r. year_month r = k) series)),
      reading_count = length (filter (\<lambda>r. year_month r = k) series)\<rparr>"

text \<open>Modelled from the spec: the groups of the absent \<^verbatim>\<open>monthly\<close> operation: every
  \<^verbatim>\<open>(year, month)\<close> present in the series, once, in chronological order.\<close>

definition month_keys :: "UsageSeries \<Rightarrow> (nat \<times> nat) list" where
  "month_keys series = sort (remdups (map year_month series))"

text \<open>Modelled from the spec: the absent operation \<^verbatim>\<open>monthly(series)\<close> of the
  AggregationEngine (section 4.2): it groups the readings by \<^verbatim>\<open>(year, month)\<close>, sums the
  usage of each group and emits one summary per group in chronological order.\<close>

definition monthly :: "(nat \<times> nat \<Rightarrow> string) \<Rightarrow> UsageSeries \<Rightarrow> MonthlySummary list" where
  "monthly label series = map (month_summary label series) (month_keys series)"

subsection \<open>Anomaly detection\<close>

text \<open>Modelled from the spec: the absent \<^verbatim>\<open>AnomalyReport\<close>, two index-aligned
  sequences.\<close>

record AnomalyReport =
  anomaly_dates :: "calendar_date list"
  anomaly_values :: "real list"

text \<open>Modelled from the spec: the sample mean and the sample standard deviation that the
  absent AnomalyDetector computes over the whole series (section 4.3).\<close>

definition mean :: "real list \<Rightarrow> real" where
  "mean xs = sum_list xs / real (length xs)"

definition sample_std :: "real list \<Rightarrow> real" where
  "sample_std xs = sqrt (sum_list (map (\<lambda>x. (x - mean xs)\<^sup>2) xs) / real (length xs - 1))"

text \<open>Modelled from the spec: the test of the absent AnomalyDetector: a reading is
  anomalous when \<^verbatim>\<open>|usage_kwh - mu| > k * sigma\<close>, and none is when \<^verbatim>\<open>sigma == 0\<close>.\<close>

definition is_anomalous :: "real \<Rightarrow> UsageSeries \<Rightarrow> UsageReading \<Rightarrow> bool" where
  "is_anomalous k series r \<longleftrightarrow>
     (let \<mu> = mean (map usage_kwh series); \<sigma> = sample_std (map usage_kwh series)
      in \<sigma> \<noteq> 0 \<and> \<bar>usage_kwh r - \<mu>\<bar> > k * \<sigma>)"

text \<open>Modelled from the spec: the absent AnomalyDetector (section 4.3), with the
  threshold multiplier \<open>k\<close>. A series of fewer than two readings has no standard
  deviation and gets the empty report; otherwise the flagged readings are reported in the
  order of the series.\<close>

definition AnomalyDetector :: "real \<Rightarrow> UsageSeries \<Rightarrow> AnomalyReport" where
  "AnomalyDetector k series =
     (if length series < 2 then \<lparr>anomaly_dates = [], anomaly_values = []\<rparr>
      else
        (let flagged = filter (is_anomalous k series) series
         in \<lparr>anomaly_dates = map date flagged, anomaly_values = map usage_kwh flagged\<rparr>))"

text \<open>Modelled from the spec: the JSON form in which the absent upload endpoint hands
  the report to the Dashboard, under the two property names the Dashboard reads. The
  text of a date is the parameter \<open>show_date\<close>.\<close>

definition report_json :: "(calendar_date \<Rightarrow> string) \<Rightarrow> AnomalyReport \<Rightarrow> jsval" where
  "report_json show_date rep =
     JObj [(''anomaly_dates'', JArr (map (\<lambda>d. JStr (show_date d)) (anomaly_dates rep))),
           (''anomaly_values'', JArr (map JNum (anomaly_values rep)))]"

subsection \<open>Plan recommendation\<close>

text \<open>Modelled from the spec: the absent \<^verbatim>\<open>Plan\<close> record of the PlanCatalog (section 3);
  \<open>None\<close> is an absent rate or fee.\<close>

record Plan =
  name :: string
  monthly_price :: real
  features :: "string list"
  rate_kwh :: "real option"
  base_fee :: "real option"

text \<open>Modelled from the spec: the absent \<^verbatim>\<open>UsageProfile\<close>.\<close>

record UsageProfile =
  average_daily_kwh :: real
  average_monthly_kwh :: real

text \<open>Modelled from the spec: the absent \<^verbatim>\<open>RankedPlans\<close>; \<open>None\<close> is an absent slot.\<close>

record RankedPlans =
  best_plan :: "Plan option"
  second_best :: "Plan option"
  third_best :: "Plan option"

text \<open>Modelled from the spec: the scoring function of the absent PlanRecommender
  (section 4.5): \<^verbatim>\<open>base_fee + rate_kwh * average_monthly_kwh\<close> when \<^verbatim>\<open>rate_kwh\<close> is
  present, else \<^verbatim>\<open>monthly_price\<close>. The specification gives no cost for a rate without a
  fee; an absent fee adds nothing here.\<close>

definition estimated_monthly_cost :: "UsageProfile \<Rightarrow> Plan \<Rightarrow> real" where
  "estimated_monthly_cost profile p =
     (case rate_kwh p of
        Some rate \<Rightarrow>
          (case base_fee p of Some fee \<Rightarrow> fee | None \<Rightarrow> 0) + rate * average_monthly_kwh profile
      | None \<Rightarrow> monthly_price p)"

text \<open>Modelled from the spec: the ranking of the absent PlanRecommender: plans sorted
  ascending by estimated monthly cost, ties broken by plan name in lexicographic order.\<close>

definition rank_key :: "UsageProfile \<Rightarrow> Plan \<Rightarrow> real \<times> string" where
  "rank_key profile p = (estimated_monthly_cost profile p, name p)"

text \<open>Modelled from the spec: the absent PlanRecommender's sort by that key; plans with
  the same cost and name keep the order of the catalog.\<close>

definition rank_plans :: "UsageProfile \<Rightarrow> Plan list \<Rightarrow> Plan list" where
  "rank_plans profile catalog = sort_key (rank_key profile) catalog"

text \<open>Modelled from the spec: a slot of the absent PlanRecommender's result: the plan at
  a position of the ranking, absent when the ranking is shorter.\<close>

definition slot :: "Plan list \<Rightarrow> nat \<Rightarrow> Plan option" where
  "slot ranked i = (if i < length ranked then Some (ranked ! i) else None)"

text \<open>Modelled from the spec: the absent PlanRecommender (section 4.5): the first three
  plans of the ranking as best, second and third.\<close>

definition PlanRecommender :: "UsageProfile \<Rightarrow> Plan list \<Rightarrow> RankedPlans" where
  "PlanRecommender profile catalog =
     (let ranked = rank_plans profile catalog
      in \<lparr>best_plan = slot ranked 0, second_best = slot ranked 1, third_best = slot ranked 2\<rparr>)"

text \<open>Modelled from the spec: the JSON form of an optional value handed over by the absent
  plans endpoint: an absent value is \<^verbatim>\<open>null\<close>. Every field goes under the name the data
  model of section 3 gives it.\<close>

definition opt_json :: "('a \<Rightarrow> jsval) \<Rightarrow> 'a option \<Rightarrow> jsval" where
  "opt_json enc x = (case x of None \<Rightarrow> JNull | Some y \<Rightarrow> enc y)"

text \<open>Modelled from the spec: the JSON form of a \<^verbatim>\<open>Plan\<close> handed over by the absent
  plans endpoint.\<close>

definition plan_json :: "Plan \<Rightarrow> jsval" where
  "plan_json p =
     JObj [(''name'', JStr (name p)),
           (''monthly_price'', JNum (monthly_price p)),
           (''features'', JArr (map JStr (features p))),
           (''rate_kwh'', opt_json JNum (rate_kwh p)),
           (''base_fee'', opt_json JNum (base_fee p))]"

text \<open>Modelled from the spec: the JSON form of the \<^verbatim>\<open>RankedPlans\<close> handed over by the
  absent plans endpoint, under the three slot names.\<close>

definition ranked_json :: "RankedPlans \<Rightarrow> jsval" where
  "ranked_json rp =
     JObj [(''best_plan'', opt_json plan_json (best_plan rp)),
           (''second_best'', opt_json plan_json (second_best rp)),
           (''third_best'', opt_json plan_json (third_best rp))]"

section \<open>Properties of the Plans component\<close>

subsection \<open>The computations and one slot of the grid\<close>

lemma truthy_not_nullish: "truthy v \<Longrightarrow> \<not> nullish v"
  by (cases v) simp_all

lemma js_bind_return [simp]: "js_bind (js_return x) f = f x"
  by (simp add: js_bind_def js_return_def split: prod.splits)

lemma js_bind_Inr: "js_bind (t, Inr x) f = (t @ fst (f x), snd (f x))"
  by (simp add: js_bind_def split: prod.splits)

lemma js_bind_Inl: "js_bind (t, Inl e) f = (t, Inl e)"
  by (simp add: js_bind_def)

lemma js_traverse_returns: "js_traverse (map (\<lambda>x. js_return (g x)) xs) = js_return (map g xs)"
  by (induction xs) simp_all

lemma js_map_features:
  "js_map (JArr xs) (\<lambda>feature index. js_return (index, feature)) =
     ([(JArr xs, ''map'')], Inr (zip [0..<length xs] xs))"
proof -
  have "map (\<lambda>(index, x). js_return (index, x)) (zip [0..<length xs] xs)
        = map (\<lambda>p. js_return p) (zip [0..<length xs] xs)"
    by (rule map_cong) auto
  then show ?thesis
    by (simp add: js_map_def js_bind_Inr js_traverse_returns) (simp add: js_return_def)
qed

lemma js_map_non_array: "\<forall>xs. v \<noteq> JArr xs \<Longrightarrow> js_map v f = ([(v, ''map'')], Inl TypeError)"
  by (cases v) (simp_all add: js_map_def)


lemma plan_slot_nullish: "nullish pl \<Longrightarrow> plan_slot h key pl = ([(pl, key)], Inl TypeError)"
  by (simp add: plan_slot_def get_prop_def js_bind_Inl)

lemma plan_slot_falsy:
  "\<not> nullish pl \<Longrightarrow> \<not> truthy (own_prop pl key) \<Longrightarrow>
   plan_slot h key pl = ([(pl, key)], Inr (Falsy (own_prop pl key)))"
  by (simp add: plan_slot_def get_prop_def js_bind_Inr js_return_def)

lemma plan_slot_card:
  assumes "\<not> nullish pl" "truthy (own_prop pl key)" "is_array (own_prop (own_prop pl key) ''features'')"
  shows "plan_slot h key pl =
     ([(pl, key), (pl, key), (own_prop pl key, ''name''), (pl, key), (own_prop pl key, ''price''),
       (pl, key), (own_prop pl key, ''features''), (own_prop (own_prop pl key) ''features'', ''map'')],
      Inr (slot_card h (own_prop pl key)))"
proof -
  obtain fs where fs: "own_prop (own_prop pl key) ''features'' = JArr fs"
    using assms(3) by (cases "own_prop (own_prop pl key) ''features''") simp_all
  show ?thesis
    using assms(1) truthy_not_nullish[OF assms(2)] assms(2) fs
    by (simp add: plan_slot_def get_prop_def js_bind_Inr js_map_features slot_card_def)
       (simp add: js_return_def)
qed

lemma plan_slot_throws:
  assumes "\<not> nullish pl" "truthy (own_prop pl key)" "\<not> is_array (own_prop (own_prop pl key) ''features'')"
  shows "plan_slot h key pl =
     ([(pl, key), (pl, key), (own_prop pl key, ''name''), (pl, key), (own_prop pl key, ''price''),
       (pl, key), (own_prop pl key, ''features''), (own_prop (own_prop pl key) ''features'', ''map'')],
      Inl TypeError)"
proof -
  have "\<forall>fs. own_prop (own_prop pl key) ''features'' \<noteq> JArr fs"
    using assms(3) by auto
  then show ?thesis
    using assms(1,2) truthy_not_nullish[OF assms(2)]
    by (simp add: plan_slot_def get_prop_def js_bind_Inr js_bind_Inl js_map_non_array)
qed

lemma plan_slot_ok:
  assumes "truthy pl" "slot_ok pl key"
  shows "snd (plan_slot h key pl) = Inr (slot_view h (own_prop pl key))"
    and "\<forall>a \<in> set (fst (plan_slot h key pl)). \<not> nullish (fst a)"
proof -
  have np: "\<not> nullish pl" using assms(1) by (rule truthy_not_nullish)
  show "snd (plan_slot h key pl) = Inr (slot_view h (own_prop pl key))"
    using assms(2) np
    by (cases "truthy (own_prop pl key)")
       (simp_all add: slot_ok_def slot_view_def plan_slot_card plan_slot_falsy)
  show "\<forall>a \<in> set (fst (plan_slot h key pl)). \<not> nullish (fst a)"
  proof (cases "truthy (own_prop pl key)")
    case True
    then have arr: "is_array (own_prop (own_prop pl key) ''features'')"
      using assms(2) by (simp add: slot_ok_def)
    then have "\<not> nullish (own_prop (own_prop pl key) ''features'')"
      by (cases "own_prop (own_prop pl key) ''features''") simp_all
    then show ?thesis
      using np True arr truthy_not_nullish[OF True] by (simp add: plan_slot_card)
  next
    case False
    then show ?thesis using np by (simp add: plan_slot_falsy)
  qed
qed

lemma plan_slot_reads_nonempty: "fst (plan_slot h key pl) \<noteq> []"
  by (simp add: plan_slot_def get_prop_def js_bind_def split: prod.splits sum.splits)

lemma Plans_grid:
  assumes "\<not> loading st" "\<not> truthy (error st)" "truthy (plans st)" "slots_ok (plans st)"
  shows "snd (Plans st) =
     Inr (PlanGridView (slot_view ''Best Plan for You'' (own_prop (plans st) ''best_plan''))
                       (slot_view ''Second Best Option'' (own_prop (plans st) ''second_best''))
                       (slot_view ''Third Best Option'' (own_prop (plans st) ''third_best'')))"
    and "\<forall>a \<in> set (fst (Plans st)). \<not> nullish (fst a)"
proof -
  let ?b = "plan_slot ''Best Plan for You'' ''best_plan'' (plans st)"
  let ?s = "plan_slot ''Second Best Option'' ''second_best'' (plans st)"
  let ?t = "plan_slot ''Third Best Option'' ''third_best'' (plans st)"
  have ok: "slot_ok (plans st) ''best_plan''" "slot_ok (plans st) ''second_best''"
    "slot_ok (plans st) ''third_best''"
    using assms(4) by (simp_all add: slots_ok_def)
  note b = plan_slot_ok[OF assms(3) ok(1), of "''Best Plan for You''"]
  note s = plan_slot_ok[OF assms(3) ok(2), of "''Second Best Option''"]
  note t = plan_slot_ok[OF assms(3) ok(3), of "''Third Best Option''"]
  have eq: "Plans st = js_bind ?b (\<lambda>b. js_bind ?s (\<lambda>s. js_bind ?t (\<lambda>t. js_return (PlanGridView b s t))))"
    using assms(1-3) by (simp add: Plans_def)
  have B: "?b = (fst ?b, Inr (slot_view ''Best Plan for You'' (own_prop (plans st) ''best_plan'')))"
    using b(1) by (metis prod.collapse)
  have S: "?s = (fst ?s, Inr (slot_view ''Second Best Option'' (own_prop (plans st) ''second_best'')))"
    using s(1) by (metis prod.collapse)
  have T: "?t = (fst ?t, Inr (slot_view ''Third Best Option'' (own_prop (plans st) ''third_best'')))"
    using t(1) by (metis prod.collapse)
  have full: "Plans st = (fst ?b @ fst ?s @ fst ?t,
      Inr (PlanGridView (slot_view ''Best Plan for You'' (own_prop (plans st) ''best_plan''))
                       (slot_view ''Second Best Option'' (own_prop (plans st) ''second_best''))
                       (slot_view ''Third Best Option'' (own_prop (plans st) ''third_best''))))"
    unfolding eq
    by (subst B, subst S, subst T) (simp add: js_bind_Inr js_return_def)
  show "snd (Plans st) =
     Inr (PlanGridView (slot_view ''Best Plan for You'' (own_prop (plans st) ''best_plan''))
                       (slot_view ''Second Best Option'' (own_prop (plans st) ''second_best''))
                       (slot_view ''Third Best Option'' (own_prop (plans st) ''third_best'')))"
    by (simp add: full)
  show "\<forall>a \<in> set (fst (Plans st)). \<not> nullish (fst a)"
    using b(2) s(2) t(2) by (auto simp: full)
qed

lemma Plans_reads_guarded:
  "fst (Plans st) \<noteq> [] \<Longrightarrow> \<not> loading st \<and> \<not> truthy (error st) \<and> truthy (plans st)"
  by (auto simp: Plans_def js_return_def split: if_splits)


lemma snd_js_bind:
  "snd (js_bind m f) = (case snd m of Inl e \<Rightarrow> Inl e | Inr x \<Rightarrow> snd (f x))"
  by (simp add: js_bind_def split: prod.splits sum.splits)

lemma plan_slot_Inr:
  assumes "snd (plan_slot h key pl) = Inr e" "truthy pl"
  shows "e = slot_view h (own_prop pl key)"
proof -
  have np: "\<not> nullish pl" using assms(2) by (rule truthy_not_nullish)
  show ?thesis
  proof (cases "truthy (own_prop pl key)")
    case False
    then show ?thesis using assms(1) np by (simp add: plan_slot_falsy slot_view_def)
  next
    case True
    show ?thesis
    proof (cases "is_array (own_prop (own_prop pl key) ''features'')")
      case True
      then show ?thesis
        using assms(1) np \<open>truthy (own_prop pl key)\<close> by (simp add: plan_slot_card slot_view_def)
    next
      case False
      then show ?thesis
        using assms(1) np \<open>truthy (own_prop pl key)\<close> by (simp add: plan_slot_throws)
    qed
  qed
qed

lemma Plans_grid_slots:
  assumes "snd (Plans st) = Inr (PlanGridView b s t)"
  shows "b = slot_view ''Best Plan for You'' (own_prop (plans st) ''best_plan'')"
    and "s = slot_view ''Second Best Option'' (own_prop (plans st) ''second_best'')"
    and "t = slot_view ''Third Best Option'' (own_prop (plans st) ''third_best'')"
proof -
  let ?b = "plan_slot ''Best Plan for You'' ''best_plan'' (plans st)"
  let ?s = "plan_slot ''Second Best Option'' ''second_best'' (plans st)"
  let ?t = "plan_slot ''Third Best Option'' ''third_best'' (plans st)"
  have g: "\<not> loading st" "\<not> truthy (error st)" "truthy (plans st)"
    using assms by (auto simp: Plans_def js_return_def split: if_splits)
  have eq: "Plans st = js_bind ?b (\<lambda>b. js_bind ?s (\<lambda>s. js_bind ?t (\<lambda>t. js_return (PlanGridView b s t))))"
    using g by (simp add: Plans_def)
  have A: "(case snd ?b of Inl e \<Rightarrow> Inl e | Inr x \<Rightarrow>
             (case snd ?s of Inl e \<Rightarrow> Inl e | Inr y \<Rightarrow>
               (case snd ?t of Inl e \<Rightarrow> Inl e | Inr z \<Rightarrow> Inr (PlanGridView x y z))))
           = Inr (PlanGridView b s t)"
    using assms unfolding eq snd_js_bind by (simp add: js_return_def cong: sum.case_cong)
  obtain x where x: "snd ?b = Inr x" using A by (cases "snd ?b") simp_all
  obtain y where y: "snd ?s = Inr y" using A x by (cases "snd ?s") simp_all
  obtain z where z: "snd ?t = Inr z" using A x y by (cases "snd ?t") simp_all
  have "x = b" "y = s" "z = t" using A x y z by simp_all
  then show "b = slot_view ''Best Plan for You'' (own_prop (plans st) ''best_plan'')"
    and "s = slot_view ''Second Best Option'' (own_prop (plans st) ''second_best'')"
    and "t = slot_view ''Third Best Option'' (own_prop (plans st) ''third_best'')"
    using plan_slot_Inr[OF x g(3)] plan_slot_Inr[OF y g(3)] plan_slot_Inr[OF z g(3)] by simp_all
qed

lemma slot_view_Card:
  assumes "slot_view h v = Card c"
  shows "card_name c = own_prop v ''name'' \<and> card_price c = own_prop v ''price''
       \<and> map snd (card_features c) = array_items (own_prop v ''features'')"
  using assms by (auto simp: slot_view_def slot_card_def split: if_splits)

lemma is_plan_json_truthy: "is_plan_json v \<Longrightarrow> truthy v \<and> is_array (own_prop v ''features'')"
  by (cases v) (simp_all add: is_plan_json_def)

lemma nullish_not_truthy: "nullish v \<Longrightarrow> \<not> truthy v \<and> \<not> is_plan_json v"
  by (cases v) (simp_all add: is_plan_json_def)

lemma slot_view_is_Card: "is_Card (slot_view h v) = truthy v"
  by (simp add: slot_view_def slot_card_def)

subsection \<open>Cards and slots\<close>

lemma Plans_cards_json:
  assumes "\<not> loading st" and "\<not> truthy (error st)" and "plans st = JObj kvs"
    and "\<forall>key \<in> {''best_plan'', ''second_best'', ''third_best''}.
           nullish (own_prop (plans st) key) \<or> is_plan_json (own_prop (plans st) key)"
  shows "\<exists>b s t. snd (Plans st) = Inr (PlanGridView b s t)
      \<and> (is_Card b \<longleftrightarrow> is_plan_json (own_prop (plans st) ''best_plan''))
      \<and> (is_Card s \<longleftrightarrow> is_plan_json (own_prop (plans st) ''second_best''))
      \<and> (is_Card t \<longleftrightarrow> is_plan_json (own_prop (plans st) ''third_best''))
      \<and> (nullish (own_prop (plans st) ''best_plan'') \<and> nullish (own_prop (plans st) ''second_best'')
           \<and> nullish (own_prop (plans st) ''third_best'')
         \<longrightarrow> \<not> is_Card b \<and> \<not> is_Card s \<and> \<not> is_Card t)"
proof -
  have tp: "truthy (plans st)" using assms(3) by simp
  have each: "nullish (own_prop (plans st) key) \<or> is_plan_json (own_prop (plans st) key)"
    if "key \<in> {''best_plan'', ''second_best'', ''third_best''}" for key
    using assms(4) that by blast
  have ok: "slot_ok (plans st) key \<and> (truthy (own_prop (plans st) key) = is_plan_json (own_prop (plans st) key))"
    if "key \<in> {''best_plan'', ''second_best'', ''third_best''}" for key
    using each[OF that] is_plan_json_truthy nullish_not_truthy
    by (auto simp: slot_ok_def)
  have so: "slots_ok (plans st)"
    using ok by (simp add: slots_ok_def)
  show ?thesis
    using Plans_grid(1)[OF assms(1,2) tp so] ok nullish_not_truthy
    by (simp add: slot_view_is_Card)
qed

text \<open>The same for a \<^verbatim>\<open>RankedPlans\<close> value of the engine in its JSON form: a card exactly
  for the slots that are present, and for the empty catalog, where the recommender
  leaves all three slots absent, the grid with no card.\<close>

lemma opt_plan_json: "nullish (opt_json plan_json x) = (x = None)"
  "is_plan_json (opt_json plan_json x) = (x \<noteq> None)"
  by (cases x; simp add: opt_json_def plan_json_def is_plan_json_def)+

lemma PlanRecommender_empty_catalog:
  "PlanRecommender profile [] = \<lparr>best_plan = None, second_best = None, third_best = None\<rparr>"
  by (simp add: PlanRecommender_def rank_plans_def slot_def)

lemma Plans_cards_ranked:
  "\<exists>b s t. snd (Plans \<lparr>plans = ranked_json rp, loading = False, error = JNull\<rparr>)
              = Inr (PlanGridView b s t)
     \<and> (is_Card b \<longleftrightarrow> best_plan rp \<noteq> None)
     \<and> (is_Card s \<longleftrightarrow> second_best rp \<noteq> None)
     \<and> (is_Card t \<longleftrightarrow> third_best rp \<noteq> None)"
proof -
  let ?kvs = "[(''best_plan'', opt_json plan_json (best_plan rp)),
               (''second_best'', opt_json plan_json (second_best rp)),
               (''third_best'', opt_json plan_json (third_best rp))]"
  let ?st = "\<lparr>plans = ranked_json rp, loading = False, error = JNull\<rparr>"
  have g: "\<not> loading ?st" "\<not> truthy (error ?st)" "plans ?st = JObj ?kvs"
    by (simp_all add: ranked_json_def)
  have h: "\<forall>key \<in> {''best_plan'', ''second_best'', ''third_best''}.
             nullish (own_prop (plans ?st) key) \<or> is_plan_json (own_prop (plans ?st) key)"
    by (auto simp add: ranked_json_def opt_plan_json)
  have p: "own_prop (plans ?st) ''best_plan'' = opt_json plan_json (best_plan rp)"
    "own_prop (plans ?st) ''second_best'' = opt_json plan_json (second_best rp)"
    "own_prop (plans ?st) ''third_best'' = opt_json plan_json (third_best rp)"
    by (simp_all add: ranked_json_def)
  from Plans_cards_json[OF g h] show ?thesis
    unfolding p opt_plan_json by blast
qed

lemma Plans_no_cards_for_empty_catalog:
  "Plans \<lparr>plans = ranked_json (PlanRecommender profile []), loading = False, error = JNull\<rparr>
   = ([(ranked_json (PlanRecommender profile []), ''best_plan''),
       (ranked_json (PlanRecommender profile []), ''second_best''),
       (ranked_json (PlanRecommender profile []), ''third_best'')],
      Inr (PlanGridView (Falsy JNull) (Falsy JNull) (Falsy JNull)))"
  by (simp add: PlanRecommender_empty_catalog ranked_json_def opt_json_def Plans_def
      plan_slot_def get_prop_def js_bind_def js_return_def)

text \<open>
  C2. For every ranked-plans object handed to the loaded component in which each of the
  three slots is absent (\<^verbatim>\<open>null\<close> or missing) or a plan, the component returns the
  plan grid without throwing, and the grid holds a card for a slot exactly when that slot
  is a plan. With all three slots absent the grid holds no card.
\<close>

theorem Plans_card_iff_slot_present:
  assumes "\<not> loading st" and "\<not> truthy (error st)" and "plans st = JObj kvs"
    and "\<forall>key \<in> {''best_plan'', ''second_best'', ''third_best''}.
           nullish (own_prop (plans st) key) \<or> is_plan_json (own_prop (plans st) key)"
  shows "\<exists>b s t. snd (Plans st) = Inr (PlanGridView b s t)
      \<and> (is_Card b \<longleftrightarrow> is_plan_json (own_prop (plans st) ''best_plan''))
      \<and> (is_Card s \<longleftrightarrow> is_plan_json (own_prop (plans st) ''second_best''))
      \<and> (is_Card t \<longleftrightarrow> is_plan_json (own_prop (plans st) ''third_best''))
      \<and> (nullish (own_prop (plans st) ''best_plan'') \<and> nullish (own_prop (plans st) ''second_best'')
           \<and> nullish (own_prop (plans st) ''third_best'')
         \<longrightarrow> \<not> is_Card b \<and> \<not> is_Card s \<and> \<not> is_Card t)"
  using assms by (rule Plans_cards_json)

text \<open>An object with a plan in the first slot, \<^verbatim>\<open>null\<close> in the second and no third
  slot: one card.\<close>

theorem Plans_card_iff_slot_present_witness:
  "\<exists>b s t.
     snd (Plans \<lparr>plans = JObj [(''best_plan'', JObj [(''name'', JStr ''A''), (''price'', JStr ''50''),
                                                   (''features'', JArr [JStr ''Green''])]),
                               (''second_best'', JNull)],
                 loading = False, error = JNull\<rparr>) = Inr (PlanGridView b s t)
     \<and> is_Card b \<and> \<not> is_Card s \<and> \<not> is_Card t"
  using Plans_card_iff_slot_present
    [of "\<lparr>plans = JObj [(''best_plan'', JObj [(''name'', JStr ''A''), (''price'', JStr ''50''),
                                             (''features'', JArr [JStr ''Green''])]),
                         (''second_best'', JNull)],
           loading = False, error = JNull\<rparr>"
        "[(''best_plan'', JObj [(''name'', JStr ''A''), (''price'', JStr ''50''),
                                (''features'', JArr [JStr ''Green''])]),
          (''second_best'', JNull)]"]
  by (simp add: is_plan_json_def)

subsection \<open>The price shown\<close>

text \<open>
  Against C5 as stated. A flat-rate plan whose price is carried under
  \<^verbatim>\<open>monthly_price\<close>, as the data model names the field, in the first slot: the card is drawn with the name and with
  \<^verbatim>\<open>undefined\<close> for the price, not with 60, since the component reads \<^verbatim>\<open>price\<close>.
\<close>

theorem Plans_price_is_not_monthly_price:
  "snd (Plans \<lparr>plans = JObj [(''best_plan'', JObj [(''name'', JStr ''B''),
                                                   (''monthly_price'', JNum 60),
                                                   (''features'', JArr [])])],
               loading = False, error = JNull\<rparr>)
     = Inr (PlanGridView (Card (PlanCard ''Best Plan for You'' (JStr ''B'') JUndefined []))
                         (Falsy JUndefined) (Falsy JUndefined))
   \<and> card_price (PlanCard ''Best Plan for You'' (JStr ''B'') JUndefined []) \<noteq> JNum 60"
  by (simp add: Plans_def plan_slot_def get_prop_def js_bind_def js_map_def js_return_def)

text \<open>
  C5, as the component has it. Whenever the component returns the plan grid, every card
  in it shows what the slot's plan carries under \<^verbatim>\<open>name\<close>, under \<^verbatim>\<open>price\<close> and, element
  by element in order, under \<^verbatim>\<open>features\<close>: the price shown is the plan's \<^verbatim>\<open>price\<close>
  property.
\<close>

theorem Plans_shows_price_field:
  assumes "snd (Plans st) = Inr (PlanGridView b s t)"
  shows "(\<forall>c. b = Card c \<longrightarrow>
            card_name c = own_prop (own_prop (plans st) ''best_plan'') ''name''
          \<and> card_price c = own_prop (own_prop (plans st) ''best_plan'') ''price''
          \<and> map snd (card_features c) = array_items (own_prop (own_prop (plans st) ''best_plan'') ''features''))
       \<and> (\<forall>c. s = Card c \<longrightarrow>
            card_name c = own_prop (own_prop (plans st) ''second_best'') ''name''
          \<and> card_price c = own_prop (own_prop (plans st) ''second_best'') ''price''
          \<and> map snd (card_features c) = array_items (own_prop (own_prop (plans st) ''second_best'') ''features''))
       \<and> (\<forall>c. t = Card c \<longrightarrow>
            card_name c = own_prop (own_prop (plans st) ''third_best'') ''name''
          \<and> card_price c = own_prop (own_prop (plans st) ''third_best'') ''price''
          \<and> map snd (card_features c) = array_items (own_prop (own_prop (plans st) ''third_best'') ''features''))"
  unfolding Plans_grid_slots[OF assms]
  by (intro conjI allI impI) (simp_all add: slot_view_Card)

theorem Plans_shows_price_field_witness:
  "snd (Plans \<lparr>plans = JObj [(''best_plan'', JObj [(''name'', JStr ''B''),
                                                   (''price'', JStr ''60 per month''),
                                                   (''features'', JArr [JStr ''Fixed rate''])])],
               loading = False, error = JNull\<rparr>)
     = Inr (PlanGridView
         (Card (PlanCard ''Best Plan for You'' (JStr ''B'') (JStr ''60 per month'') [(0, JStr ''Fixed rate'')]))
         (Falsy JUndefined) (Falsy JUndefined))
   \<and> card_price (PlanCard ''Best Plan for You'' (JStr ''B'') (JStr ''60 per month'') [(0, JStr ''Fixed rate'')])
     = JStr ''60 per month''"
proof -
  have e: "snd (Plans \<lparr>plans = JObj [(''best_plan'', JObj [(''name'', JStr ''B''),
                                                   (''price'', JStr ''60 per month''),
                                                   (''features'', JArr [JStr ''Fixed rate''])])],
               loading = False, error = JNull\<rparr>)
     = Inr (PlanGridView
         (Card (PlanCard ''Best Plan for You'' (JStr ''B'') (JStr ''60 per month'') [(0, JStr ''Fixed rate'')]))
         (Falsy JUndefined) (Falsy JUndefined))"
    by (simp add: Plans_def plan_slot_def get_prop_def js_bind_def js_map_def js_return_def)
  from Plans_shows_price_field[OF e] e show ?thesis by simp
qed

subsection \<open>Guards before reads\<close>

text \<open>
  Against C9 as stated. A loaded state whose first slot is an object without
  \<^verbatim>\<open>features\<close>: all three guards are passed, and the component throws on \<^verbatim>\<open>undefined.map\<close> instead of returning a
  view.
\<close>

theorem Plans_throws_on_slot_without_features:
  "snd (Plans \<lparr>plans = JObj [(''best_plan'', JObj [(''name'', JStr ''A'')])],
               loading = False, error = JNull\<rparr>) = Inl TypeError
   \<and> last (fst (Plans \<lparr>plans = JObj [(''best_plan'', JObj [(''name'', JStr ''A'')])],
                      loading = False, error = JNull\<rparr>)) = (JUndefined, ''map'')"
  by (simp add: Plans_def plan_slot_def get_prop_def js_bind_def js_map_def js_return_def)

text \<open>
  C9, as the component has it. While loading the component returns the loading message,
  with an error the error message, with a falsy \<^verbatim>\<open>plans\<close> the no-plans fallback, each
  without reading any property. When all three guards are passed and every truthy slot
  carries an array under \<^verbatim>\<open>features\<close>, it returns the plan grid and reads no property
  of \<^verbatim>\<open>null\<close> or \<^verbatim>\<open>undefined\<close>. In every state, a property is read only after the
  three guards have been passed. After a failed fetch the view is the error message and
  after a fetch with a falsy body the no-plans fallback.
\<close>

theorem Plans_guards_before_reads:
  "(loading st \<longrightarrow> Plans st = ([], Inr LoadingView))
   \<and> (\<not> loading st \<and> truthy (error st) \<longrightarrow> Plans st = ([], Inr (ErrorView (error st))))
   \<and> (\<not> loading st \<and> \<not> truthy (error st) \<and> \<not> truthy (plans st) \<longrightarrow>
        Plans st = ([], Inr NoPlansView))
   \<and> (\<not> loading st \<and> \<not> truthy (error st) \<and> truthy (plans st) \<and> slots_ok (plans st) \<longrightarrow>
        (\<exists>b s t. snd (Plans st) = Inr (PlanGridView b s t))
        \<and> (\<forall>a \<in> set (fst (Plans st)). \<not> nullish (fst a)))
   \<and> (fst (Plans st) \<noteq> [] \<longrightarrow> \<not> loading st \<and> \<not> truthy (error st) \<and> truthy (plans st))
   \<and> Plans (fetchPlans Rejected initial_plans_state) =
        ([], Inr (ErrorView (JStr ''Failed to fetch electricity plans'')))
   \<and> (\<forall>d. \<not> truthy d \<longrightarrow> Plans (fetchPlans (Resolved d) initial_plans_state) = ([], Inr NoPlansView))"
proof -
  have 1: "loading st \<longrightarrow> Plans st = ([], Inr LoadingView)"
    by (simp add: Plans_def js_return_def)
  have 2: "\<not> loading st \<and> truthy (error st) \<longrightarrow> Plans st = ([], Inr (ErrorView (error st)))"
    by (simp add: Plans_def js_return_def)
  have 3: "\<not> loading st \<and> \<not> truthy (error st) \<and> \<not> truthy (plans st) \<longrightarrow>
        Plans st = ([], Inr NoPlansView)"
    by (simp add: Plans_def js_return_def)
  have 4: "\<not> loading st \<and> \<not> truthy (error st) \<and> truthy (plans st) \<and> slots_ok (plans st) \<longrightarrow>
        (\<exists>b s t. snd (Plans st) = Inr (PlanGridView b s t))
        \<and> (\<forall>a \<in> set (fst (Plans st)). \<not> nullish (fst a))"
    using Plans_grid by blast
  have 5: "fst (Plans st) \<noteq> [] \<longrightarrow> \<not> loading st \<and> \<not> truthy (error st) \<and> truthy (plans st)"
    using Plans_reads_guarded by blast
  have 6: "Plans (fetchPlans Rejected initial_plans_state) =
        ([], Inr (ErrorView (JStr ''Failed to fetch electricity plans'')))"
    by (simp add: Plans_def fetchPlans_def initial_plans_state_def js_return_def)
  have 7: "\<forall>d. \<not> truthy d \<longrightarrow> Plans (fetchPlans (Resolved d) initial_plans_state) = ([], Inr NoPlansView)"
    by (simp add: Plans_def fetchPlans_def initial_plans_state_def js_return_def)
  from 1 2 3 4 5 6 7 show ?thesis by blast
qed

theorem Plans_guards_before_reads_witness:
  "Plans \<lparr>plans = JNull, loading = True, error = JNull\<rparr> = ([], Inr LoadingView)
   \<and> Plans \<lparr>plans = JNull, loading = False, error = JStr ''Failed to fetch electricity plans''\<rparr>
       = ([], Inr (ErrorView (JStr ''Failed to fetch electricity plans'')))
   \<and> Plans \<lparr>plans = JNull, loading = False, error = JNull\<rparr> = ([], Inr NoPlansView)
   \<and> (\<exists>b s t. snd (Plans \<lparr>plans = JObj [(''best_plan'', JObj [(''name'', JStr ''A''),
                                              (''features'', JArr [])])],
                           loading = False, error = JNull\<rparr>) = Inr (PlanGridView b s t))
   \<and> list_all (\<lambda>a. \<not> nullish (fst a))
        (fst (Plans \<lparr>plans = JObj [(''best_plan'', JObj [(''name'', JStr ''A''),
                                              (''features'', JArr [])])],
                           loading = False, error = JNull\<rparr>))"
  using Plans_guards_before_reads [of "\<lparr>plans = JNull, loading = True, error = JNull\<rparr>"]
    Plans_guards_before_reads
      [of "\<lparr>plans = JNull, loading = False, error = JStr ''Failed to fetch electricity plans''\<rparr>"]
    Plans_guards_before_reads [of "\<lparr>plans = JNull, loading = False, error = JNull\<rparr>"]
    Plans_guards_before_reads
      [of "\<lparr>plans = JObj [(''best_plan'', JObj [(''name'', JStr ''A''), (''features'', JArr [])])],
            loading = False, error = JNull\<rparr>"]
  by (simp add: slots_ok_def slot_ok_def list_all_iff)

section \<open>Properties of the Dashboard\<close>

lemma js_traverse_snd:
  assumes "\<forall>x \<in> set xs. snd (g x) = Inr (h x)"
  shows "snd (js_traverse (map g xs)) = Inr (map h xs)"
  using assms by (induction xs) (simp_all add: snd_js_bind js_return_def)

lemma own_prop_array_not_nullish: "own_prop an key = JArr xs \<Longrightarrow> \<not> nullish an \<and> truthy an"
  by (cases an) (simp_all split: if_splits)

lemma anomaly_line_callback:
  assumes "own_prop an ''anomaly_values'' = JArr vs" "\<not> to_primitive_throws d"
  shows "snd (js_bind (get_prop an ''anomaly_values'') (\<lambda>vs.
            js_bind (get_index vs i) (\<lambda>usage.
            js_bind (js_to_string d) (\<lambda>key. js_return (AnomalyLine key d usage)))))
         = Inr (AnomalyLine d d (if i < length vs then vs ! i else JUndefined))"
  using assms own_prop_array_not_nullish[OF assms(1)]
  by (simp add: snd_js_bind get_prop_def get_index_def js_to_string_def js_return_def)

lemma js_gt_zero_length: "js_gt_zero sn (JNum (real n)) = ([], Inr (0 < n))"
  by (simp add: js_gt_zero_def)

lemma Dashboard_anomalies_arrays:
  assumes "own_prop an ''anomaly_dates'' = JArr ds" "own_prop an ''anomaly_values'' = JArr vs"
    and "list_all (\<lambda>d. \<not> to_primitive_throws d) ds"
  shows "snd (Dashboard_anomalies sn an) =
     Inr (if ds = [] then NoCard (JBool False)
          else AnomalyCard (map (\<lambda>(i, d). AnomalyLine d d (if i < length vs then vs ! i else JUndefined))
                 (zip [0..<length ds] ds)))"
proof -
  note nn = own_prop_array_not_nullish[OF assms(1)]
  have ok: "\<not> to_primitive_throws d" if "(i, d) \<in> set (zip [0..<length ds] ds)" for i d
    using assms(3) set_zip_rightD[OF that] by (simp add: list_all_iff)
  have lines: "snd (js_map (JArr ds) (\<lambda>date index.
                js_bind (get_prop an ''anomaly_values'') (\<lambda>vs.
                js_bind (get_index vs index) (\<lambda>usage.
                js_bind (js_to_string date) (\<lambda>key.
                js_return (AnomalyLine key date usage))))))
      = Inr (map (\<lambda>(i, d). AnomalyLine d d (if i < length vs then vs ! i else JUndefined))
                 (zip [0..<length ds] ds))"
    unfolding js_map_def
    by (simp add: snd_js_bind)
       (rule js_traverse_snd, auto simp: anomaly_line_callback[OF assms(2) ok])
  show ?thesis
    using nn assms(1) lines
    by (simp add: Dashboard_anomalies_def snd_js_bind get_prop_def js_gt_zero_length js_return_def)
qed

text \<open>A date that cannot be converted to a string as the key of its line, and a length
  that cannot be compared with 0: the component throws.\<close>

lemma Dashboard_anomalies_key_throws:
  "snd (Dashboard_anomalies sn
         (JObj [(''anomaly_dates'', JArr [JObj [(''toString'', JNum 1)]]),
                (''anomaly_values'', JArr [JNum 95])])) = Inl TypeError"
  by (simp add: Dashboard_anomalies_def js_bind_def get_prop_def js_gt_zero_def js_map_def
      get_index_def js_to_string_def js_return_def)

lemma Dashboard_anomalies_length_throws:
  "snd (Dashboard_anomalies sn
         (JObj [(''anomaly_dates'', JObj [(''length'', JObj [(''toString'', JNum 1)])])]))
   = Inl TypeError"
  by (simp add: Dashboard_anomalies_def js_bind_def get_prop_def js_gt_zero_def)

lemma lines_zip:
  assumes "length ds = length vs"
  shows "map (\<lambda>(i, d). AnomalyLine d d (if i < length vs then vs ! i else JUndefined))
                 (zip [0..<length ds] ds) = map2 (\<lambda>d v. AnomalyLine d d v) ds vs"
  using assms by (auto intro!: nth_equalityI)

lemma Dashboard_card:
  assumes "own_prop (anomalies st) ''anomaly_dates'' = JArr ds"
    and "own_prop (anomalies st) ''anomaly_values'' = JArr vs"
    and "length ds = length vs"
    and "list_all (\<lambda>d. \<not> to_primitive_throws d) ds"
    and "snd (Dashboard_analysis (analysis st)) = Inr charts"
  shows "snd (Dashboard sn st) =
     Inr (DashboardView charts
           (if ds = [] then NoCard (JBool False)
            else AnomalyCard (map2 (\<lambda>d v. AnomalyLine d d v) ds vs)))"
  using Dashboard_anomalies_arrays[OF assms(1,2,4), of sn] lines_zip[OF assms(3)] assms(5)
  by (simp add: Dashboard_def snd_js_bind js_return_def)

lemma Dashboard_initial:
  "Dashboard sn initial_dashboard_state = ([], Inr (DashboardView (NoGrid JNull) (NoCard JNull)))"
  by (simp add: Dashboard_def Dashboard_analysis_def Dashboard_anomalies_def
      initial_dashboard_state_def) (simp add: js_return_def)

text \<open>
  C10. When the upload request fails (the promise of \<^verbatim>\<open>axios.post\<close> rejects),
  \<^verbatim>\<open>handleFileUpload\<close> leaves the analysis and the anomalies exactly as they were, no
  partial result is stored, and the Dashboard draws what it drew before. The same holds
  when the answer has no body to read from (\<^verbatim>\<open>response.data\<close> is \<^verbatim>\<open>null\<close> or
  \<^verbatim>\<open>undefined\<close>), where the first read throws inside the \<^verbatim>\<open>try\<close>.
\<close>

theorem handleFileUpload_failure_keeps_results:
  "analysis (handleFileUpload f Rejected st) = analysis st
   \<and> anomalies (handleFileUpload f Rejected st) = anomalies st
   \<and> Dashboard sn (handleFileUpload f Rejected st) = Dashboard sn st
   \<and> analysis (handleFileUpload f (Resolved JNull) st) = analysis st
   \<and> anomalies (handleFileUpload f (Resolved JNull) st) = anomalies st
   \<and> analysis (handleFileUpload f (Resolved JUndefined) st) = analysis st
   \<and> anomalies (handleFileUpload f (Resolved JUndefined) st) = anomalies st"
  by (simp add: handleFileUpload_def get_prop_def Dashboard_def)

text \<open>A successful upload, for comparison: both results are replaced by what the answer
  carries.\<close>

lemma handleFileUpload_success:
  "d = JObj kvs \<Longrightarrow>
   handleFileUpload f (Resolved d) st =
     st\<lparr>file' := f, analysis := own_prop d ''analysis'', anomalies := own_prop d ''anomalies''\<rparr>"
  by (simp add: handleFileUpload_def get_prop_def)

section \<open>Properties of the anomaly detector\<close>

lemma sum_list_constant: "\<forall>x \<in> set xs. x = c \<Longrightarrow> sum_list xs = real (length xs) * (c::real)"
  by (induction xs) (simp_all add: algebra_simps)

lemma mean_constant:
  assumes "\<forall>x \<in> set xs. x = c" "xs \<noteq> []"
  shows "mean xs = c"
  using sum_list_constant[OF assms(1)] assms(2) by (simp add: mean_def)

lemma sample_std_constant:
  assumes "\<forall>x \<in> set xs. x = c"
  shows "sample_std xs = 0"
proof (cases "xs = []")
  case True
  then show ?thesis by (simp add: sample_std_def)
next
  case False
  have m: "mean xs = c" using mean_constant[OF assms False] .
  have eq: "map (\<lambda>x. (x - mean xs)\<^sup>2) xs = map (\<lambda>x. 0) xs"
    using assms by (simp add: m)
  have "sum_list (map (\<lambda>x. (x - mean xs)\<^sup>2) xs) = sum_list (map (\<lambda>x. 0::real) xs)"
    by (simp only: eq)
  also have "\<dots> = 0" by simp
  finally show ?thesis by (simp add: sample_std_def)
qed

lemma sample_std_short: "length xs < 2 \<Longrightarrow> sample_std xs = 0"
proof (cases xs)
  case Nil
  then show ?thesis by (simp add: sample_std_def)
next
  case (Cons x ys)
  assume "length xs < 2"
  with Cons have "ys = []" by simp
  with Cons show ?thesis by (simp add: sample_std_def)
qed

lemma no_anomaly_without_deviation:
  "sample_std (map usage_kwh series) = 0 \<Longrightarrow> filter (is_anomalous k series) series = []"
  by (simp add: is_anomalous_def)

lemma AnomalyDetector_filter:
  "AnomalyDetector k series =
     \<lparr>anomaly_dates = map date (filter (is_anomalous k series) series),
      anomaly_values = map usage_kwh (filter (is_anomalous k series) series)\<rparr>"
proof (cases "length series < 2")
  case True
  then have "sample_std (map usage_kwh series) = 0" by (simp add: sample_std_short)
  then show ?thesis using True by (simp add: AnomalyDetector_def no_anomaly_without_deviation)
next
  case False
  then show ?thesis by (simp add: AnomalyDetector_def Let_def)
qed

lemma report_lines:
  "map2 (\<lambda>d v. AnomalyLine d d v) (map (\<lambda>d. JStr (sd d)) (map date fl)) (map JNum (map usage_kwh fl))
   = map (\<lambda>r. AnomalyLine (JStr (sd (date r))) (JStr (sd (date r))) (JNum (usage_kwh r))) fl"
  by (induction fl) simp_all

text \<open>Ten readings, one of them far from the others: with \<open>k = 2\<close> that one is
  flagged, with its date and its value.\<close>

lemma sqrt_10_bounds: "3 < sqrt 10" "sqrt 10 < 4"
  by (rule real_less_rsqrt, simp) (rule real_less_lsqrt, simp_all)

lemma AnomalyDetector_flags_outlier:
  "AnomalyDetector 2
     [\<lparr>date = (2024, 1, 1), usage_kwh = 0\<rparr>, \<lparr>date = (2024, 1, 2), usage_kwh = 0\<rparr>,
      \<lparr>date = (2024, 1, 3), usage_kwh = 0\<rparr>, \<lparr>date = (2024, 1, 4), usage_kwh = 10\<rparr>,
      \<lparr>date = (2024, 1, 5), usage_kwh = 0\<rparr>, \<lparr>date = (2024, 1, 6), usage_kwh = 0\<rparr>,
      \<lparr>date = (2024, 1, 7), usage_kwh = 0\<rparr>, \<lparr>date = (2024, 1, 8), usage_kwh = 0\<rparr>,
      \<lparr>date = (2024, 1, 9), usage_kwh = 0\<rparr>, \<lparr>date = (2024, 1, 10), usage_kwh = 0\<rparr>]
   = \<lparr>anomaly_dates = [(2024, 1, 4)], anomaly_values = [10]\<rparr>"
proof -
  let ?xs = "[0, 0, 0, 10, 0, 0, 0, 0, 0, 0 :: real]"
  have m: "mean ?xs = 1" by (simp add: mean_def)
  have s: "sample_std ?xs = sqrt 10" by (simp add: sample_std_def m)
  show ?thesis
    using sqrt_10_bounds
    by (simp add: AnomalyDetector_def is_anomalous_def m s Let_def)
qed

text \<open>Among four readings none lies two sample standard deviations from the mean: the
  series 30, 32, 31, 95 gets the empty report at \<open>k = 2\<close>.\<close>

lemma AnomalyDetector_four_readings:
  "AnomalyDetector 2
     [\<lparr>date = (2024, 1, 1), usage_kwh = 30\<rparr>, \<lparr>date = (2024, 1, 2), usage_kwh = 32\<rparr>,
      \<lparr>date = (2024, 1, 3), usage_kwh = 31\<rparr>, \<lparr>date = (2024, 1, 4), usage_kwh = 95\<rparr>]
   = \<lparr>anomaly_dates = [], anomaly_values = []\<rparr>"
proof -
  let ?xs = "[30, 32, 31, 95 :: real]"
  have m: "mean ?xs = 47" by (simp add: mean_def)
  have s: "sample_std ?xs = sqrt (3074 / 3)" by (simp add: sample_std_def m)
  have b: "24 < sqrt (3074 / 3)" by (rule real_less_rsqrt) simp
  show ?thesis
    using b by (simp add: AnomalyDetector_def is_anomalous_def m s Let_def)
qed

text \<open>
  C3. For every series of fewer than two readings, and for every series whose readings
  all have the same usage (the sample standard deviation is then 0), the AnomalyDetector
  returns the empty report, with no date and no value; so it does whenever the standard
  deviation is 0. The detector is a total function: it returns a report on every series.
\<close>

theorem AnomalyDetector_empty_report:
  "(length series < 2 \<longrightarrow>
      AnomalyDetector k series = \<lparr>anomaly_dates = [], anomaly_values = []\<rparr>)
   \<and> ((\<forall>r \<in> set series. usage_kwh r = c) \<longrightarrow>
        sample_std (map usage_kwh series) = 0
        \<and> AnomalyDetector k series = \<lparr>anomaly_dates = [], anomaly_values = []\<rparr>)
   \<and> (sample_std (map usage_kwh series) = 0 \<longrightarrow>
        AnomalyDetector k series = \<lparr>anomaly_dates = [], anomaly_values = []\<rparr>)"
proof -
  have z: "AnomalyDetector k series = \<lparr>anomaly_dates = [], anomaly_values = []\<rparr>"
    if "sample_std (map usage_kwh series) = 0"
    using no_anomaly_without_deviation[OF that, of k] by (simp add: AnomalyDetector_filter)
  have c: "sample_std (map usage_kwh series) = 0" if "\<forall>r \<in> set series. usage_kwh r = c"
    using that by (intro sample_std_constant[of _ c]) simp
  have s: "AnomalyDetector k series = \<lparr>anomaly_dates = [], anomaly_values = []\<rparr>"
    if "length series < 2"
    using that by (simp add: AnomalyDetector_def)
  from z c s show ?thesis by blast
qed

theorem AnomalyDetector_empty_report_witness:
  "AnomalyDetector 2 [\<lparr>date = (2024, 1, 1), usage_kwh = 30\<rparr>]
     = \<lparr>anomaly_dates = [], anomaly_values = []\<rparr>
   \<and> AnomalyDetector 2 [\<lparr>date = (2024, 1, 1), usage_kwh = 30\<rparr>,
                        \<lparr>date = (2024, 1, 2), usage_kwh = 30\<rparr>,
                        \<lparr>date = (2024, 1, 3), usage_kwh = 30\<rparr>]
     = \<lparr>anomaly_dates = [], anomaly_values = []\<rparr>"
  using AnomalyDetector_empty_report [of "[\<lparr>date = (2024, 1, 1), usage_kwh = 30\<rparr>]" 2 30]
    AnomalyDetector_empty_report [of "[\<lparr>date = (2024, 1, 1), usage_kwh = 30\<rparr>,
                        \<lparr>date = (2024, 1, 2), usage_kwh = 30\<rparr>,
                        \<lparr>date = (2024, 1, 3), usage_kwh = 30\<rparr>]" 2 30]
  by simp

lemma report_json_props:
  "own_prop (report_json sd rep) ''anomaly_dates'' = JArr (map (\<lambda>d. JStr (sd d)) (anomaly_dates rep))"
  "own_prop (report_json sd rep) ''anomaly_values'' = JArr (map JNum (anomaly_values rep))"
  by (simp_all add: report_json_def)

lemma AnomalyDetector_chronological:
  assumes "valid_series series"
  shows "sorted_wrt (<) (anomaly_dates (AnomalyDetector k series))"
proof -
  have "sorted_wrt (\<lambda>a b. date a < date b) series"
    using assms by (simp add: valid_series_def sorted_wrt_map)
  then have "sorted_wrt (\<lambda>a b. date a < date b) (filter (is_anomalous k series) series)"
    by (rule sorted_wrt_filter)
  then show ?thesis
    by (simp add: AnomalyDetector_filter sorted_wrt_map)
qed

text \<open>
  C6. The report of the AnomalyDetector has as many dates as values, and both are the
  flagged readings of the series in the order of the series, none dropped or repeated;
  on a valid series the dates are strictly ascending. For every state of the Dashboard
  whose anomalies carry two equally long arrays, the dates convertible to keys, and
  whose charts are drawn, the Dashboard returns its view with no card when there is no
  flagged day and otherwise with one line per date, the i-th line pairing the i-th date
  with the i-th value. On the detector's report in its JSON form these are the flagged
  readings in order.
\<close>

theorem anomaly_report_aligned_and_rendered:
  "length (anomaly_dates (AnomalyDetector k series)) = length (anomaly_values (AnomalyDetector k series))
   \<and> anomaly_dates (AnomalyDetector k series) = map date (filter (is_anomalous k series) series)
   \<and> anomaly_values (AnomalyDetector k series) = map usage_kwh (filter (is_anomalous k series) series)
   \<and> (valid_series series \<longrightarrow> sorted_wrt (<) (anomaly_dates (AnomalyDetector k series)))
   \<and> (own_prop (anomalies st) ''anomaly_dates'' = JArr ds
        \<and> own_prop (anomalies st) ''anomaly_values'' = JArr vs
        \<and> length ds = length vs
        \<and> list_all (\<lambda>d. \<not> to_primitive_throws d) ds
        \<and> snd (Dashboard_analysis (analysis st)) = Inr charts \<longrightarrow>
      snd (Dashboard sn st) =
        Inr (DashboardView charts
              (if ds = [] then NoCard (JBool False)
               else AnomalyCard (map2 (\<lambda>d v. AnomalyLine d d v) ds vs))))
   \<and> (anomalies st = report_json show_date (AnomalyDetector k series)
        \<and> snd (Dashboard_analysis (analysis st)) = Inr charts \<longrightarrow>
      snd (Dashboard sn st) =
        Inr (DashboardView charts
              (if filter (is_anomalous k series) series = [] then NoCard (JBool False)
               else AnomalyCard
                 (map (\<lambda>r. AnomalyLine (JStr (show_date (date r))) (JStr (show_date (date r)))
                                        (JNum (usage_kwh r)))
                      (filter (is_anomalous k series) series)))))"
proof -
  let ?fl = "filter (is_anomalous k series) series"
  have rep: "AnomalyDetector k series =
     \<lparr>anomaly_dates = map date ?fl, anomaly_values = map usage_kwh ?fl\<rparr>"
    by (rule AnomalyDetector_filter)
  have chron: "valid_series series \<longrightarrow> sorted_wrt (<) (anomaly_dates (AnomalyDetector k series))"
    using AnomalyDetector_chronological by blast
  have gen: "own_prop (anomalies st) ''anomaly_dates'' = JArr ds
        \<and> own_prop (anomalies st) ''anomaly_values'' = JArr vs
        \<and> length ds = length vs
        \<and> list_all (\<lambda>d. \<not> to_primitive_throws d) ds
        \<and> snd (Dashboard_analysis (analysis st)) = Inr charts \<longrightarrow>
      snd (Dashboard sn st) =
        Inr (DashboardView charts
              (if ds = [] then NoCard (JBool False)
               else AnomalyCard (map2 (\<lambda>d v. AnomalyLine d d v) ds vs)))"
    using Dashboard_card[of st ds vs charts sn] by blast
  have e2e: "snd (Dashboard sn st) =
        Inr (DashboardView charts
              (if ?fl = [] then NoCard (JBool False)
               else AnomalyCard
                 (map (\<lambda>r. AnomalyLine (JStr (show_date (date r))) (JStr (show_date (date r)))
                                        (JNum (usage_kwh r))) ?fl)))"
    if a: "anomalies st = report_json show_date (AnomalyDetector k series)"
      and c: "snd (Dashboard_analysis (analysis st)) = Inr charts"
  proof -
    let ?ds = "map (\<lambda>d. JStr (show_date d)) (map date ?fl)"
    let ?vs = "map JNum (map usage_kwh ?fl)"
    have d: "own_prop (anomalies st) ''anomaly_dates'' = JArr ?ds"
      and v: "own_prop (anomalies st) ''anomaly_values'' = JArr ?vs"
      by (simp_all add: a report_json_props rep)
    have l: "length ?ds = length ?vs" by simp
    have t: "list_all (\<lambda>d. \<not> to_primitive_throws d) ?ds"
      by (simp add: list_all_iff)
    have e: "(?ds = []) = (?fl = [])" by simp
    show ?thesis
      unfolding Dashboard_card[OF d v l t c, of sn] e report_lines ..
  qed
  have len: "length (anomaly_dates (AnomalyDetector k series))
      = length (anomaly_values (AnomalyDetector k series))"
    by (simp add: rep)
  have ds: "anomaly_dates (AnomalyDetector k series) = map date ?fl"
    and vs: "anomaly_values (AnomalyDetector k series) = map usage_kwh ?fl"
    by (simp_all add: rep)
  from len ds vs chron gen e2e show ?thesis by blast
qed

text \<open>A Dashboard with its charts drawn and two flagged days: two lines, in order.\<close>

theorem anomaly_report_aligned_and_rendered_witness:
  "snd (Dashboard (\<lambda>s. None)
         \<lparr>file' = None,
          analysis = JObj [(''monthly_plot'', JStr ''iVBORw0KGgo=''), (''weekly_plot'', JStr ''R0lGODlh'')],
          anomalies = JObj [(''anomaly_dates'', JArr [JStr ''2024-01-04'', JStr ''2024-02-11'']),
                            (''anomaly_values'', JArr [JNum 95, JNum 4])]\<rparr>)
   = Inr (DashboardView
           (AnalysisGrid (JStr ''iVBORw0KGgo='') (JStr ''R0lGODlh''))
           (AnomalyCard [AnomalyLine (JStr ''2024-01-04'') (JStr ''2024-01-04'') (JNum 95),
                         AnomalyLine (JStr ''2024-02-11'') (JStr ''2024-02-11'') (JNum 4)]))"
proof -
  let ?st = "\<lparr>file' = None,
          analysis = JObj [(''monthly_plot'', JStr ''iVBORw0KGgo=''), (''weekly_plot'', JStr ''R0lGODlh'')],
          anomalies = JObj [(''anomaly_dates'', JArr [JStr ''2024-01-04'', JStr ''2024-02-11'']),
                            (''anomaly_values'', JArr [JNum 95, JNum 4])]\<rparr>"
  have c: "snd (Dashboard_analysis (analysis ?st))
      = Inr (AnalysisGrid (JStr ''iVBORw0KGgo='') (JStr ''R0lGODlh''))"
    by (simp add: Dashboard_analysis_def js_bind_def get_prop_def js_to_string_def js_return_def)
  have h: "own_prop (anomalies ?st) ''anomaly_dates'' = JArr [JStr ''2024-01-04'', JStr ''2024-02-11'']
        \<and> own_prop (anomalies ?st) ''anomaly_values'' = JArr [JNum 95, JNum 4]
        \<and> length [JStr ''2024-01-04'', JStr ''2024-02-11''] = length [JNum 95, JNum 4]
        \<and> list_all (\<lambda>d. \<not> to_primitive_throws d) [JStr ''2024-01-04'', JStr ''2024-02-11'']
        \<and> snd (Dashboard_analysis (analysis ?st))
            = Inr (AnalysisGrid (JStr ''iVBORw0KGgo='') (JStr ''R0lGODlh''))"
    using c by simp
  note t = anomaly_report_aligned_and_rendered
    [where st = ?st and ds = "[JStr ''2024-01-04'', JStr ''2024-02-11'']"
       and vs = "[JNum 95, JNum 4]" and sn = "\<lambda>s. None" and k = 2 and series = "[]"
       and show_date = "\<lambda>d. []"
       and charts = "AnalysisGrid (JStr ''iVBORw0KGgo='') (JStr ''R0lGODlh'')"]
  from t[THEN conjunct2, THEN conjunct2, THEN conjunct2, THEN conjunct2, THEN conjunct1,
         rule_format, OF h]
  show ?thesis by simp
qed

section \<open>Properties of the monthly aggregation\<close>

lemma sum_list_delta:
  "distinct ks \<Longrightarrow>
   sum_list (map (\<lambda>k. if a = k then c else 0) ks) = (if a \<in> set ks then c else (0::'a::comm_monoid_add))"
  by (induction ks) auto

lemma sum_list_groups:
  fixes f :: "'a \<Rightarrow> 'b::comm_monoid_add"
  assumes "distinct ks" "key ` set xs \<subseteq> set ks"
  shows "sum_list (map (\<lambda>k. sum_list (map f (filter (\<lambda>x. key x = k) xs))) ks) = sum_list (map f xs)"
  using assms(2)
proof (induction xs)
  case Nil
  then show ?case by simp
next
  case (Cons x xs)
  have split: "sum_list (map f (filter (\<lambda>y. key y = k) (x # xs)))
        = (if key x = k then f x else 0) + sum_list (map f (filter (\<lambda>y. key y = k) xs))" for k
    by simp
  have "sum_list (map (\<lambda>k. sum_list (map f (filter (\<lambda>y. key y = k) (x # xs)))) ks)
      = sum_list (map (\<lambda>k. if key x = k then f x else 0) ks)
        + sum_list (map (\<lambda>k. sum_list (map f (filter (\<lambda>y. key y = k) xs))) ks)"
    unfolding split by (simp add: sum_list_addf)
  also have "sum_list (map (\<lambda>k. if key x = k then f x else 0) ks) = f x"
    using Cons.prems by (simp add: sum_list_delta[OF assms(1)])
  also have "sum_list (map (\<lambda>k. sum_list (map f (filter (\<lambda>y. key y = k) xs))) ks) = sum_list (map f xs)"
    using Cons by simp
  finally show ?case by simp
qed

lemma month_keys_set: "set (month_keys series) = year_month ` set series"
  by (simp add: month_keys_def)

lemma month_keys_distinct: "distinct (month_keys series)"
  by (simp add: month_keys_def)

lemma month_keys_sorted: "sorted_wrt (<) (month_keys series)"
  by (simp add: month_keys_def strict_sorted_iff)

lemma monthly_total:
  "sum_list (map total_kwh (monthly label series)) = sum_list (map usage_kwh series)"
proof -
  have "sum_list (map total_kwh (monthly label series))
      = sum_list (map (\<lambda>k. sum_list (map usage_kwh (filter (\<lambda>r. year_month r = k) series)))
                      (month_keys series))"
    by (simp add: monthly_def month_summary_def comp_def)
  also have "\<dots> = sum_list (map usage_kwh series)"
    by (rule sum_list_groups[OF month_keys_distinct]) (simp add: month_keys_set)
  finally show ?thesis .
qed

lemma monthly_count:
  "sum_list (map reading_count (monthly label series)) = length series"
proof -
  have "sum_list (map reading_count (monthly label series))
      = sum_list (map (\<lambda>k. sum_list (map (\<lambda>r. 1::nat) (filter (\<lambda>r. year_month r = k) series)))
                      (month_keys series))"
    by (simp add: monthly_def month_summary_def comp_def sum_list_triv)
  also have "\<dots> = sum_list (map (\<lambda>r. 1::nat) series)"
    by (rule sum_list_groups[OF month_keys_distinct]) (simp add: month_keys_set)
  finally show ?thesis by (simp add: sum_list_triv)
qed

lemma monthly_nonempty_groups: "m \<in> set (monthly label series) \<Longrightarrow> 1 \<le> reading_count m"
proof -
  assume "m \<in> set (monthly label series)"
  then obtain k where k: "k \<in> set (month_keys series)" and m: "m = month_summary label series k"
    by (auto simp: monthly_def)
  from k obtain r where "r \<in> set series" "year_month r = k"
    by (auto simp: month_keys_set)
  then have "filter (\<lambda>r. year_month r = k) series \<noteq> []"
    by (auto simp: filter_empty_conv)
  then show ?thesis by (simp add: m month_summary_def Suc_leI)
qed

text \<open>Three readings over two months, the second month with a single reading.\<close>

lemma monthly_example:
  "monthly (\<lambda>k. decimal (fst k) @ ''-'' @ decimal (snd k))
         [\<lparr>date = (2024, 1, 30), usage_kwh = 10\<rparr>,
          \<lparr>date = (2024, 1, 31), usage_kwh = 12\<rparr>,
          \<lparr>date = (2024, 2, 1), usage_kwh = 7\<rparr>]
   = [\<lparr>period_label = ''2024-1'', total_kwh = 22, reading_count = 2\<rparr>,
      \<lparr>period_label = ''2024-2'', total_kwh = 7, reading_count = 1\<rparr>]"
  by (simp add: monthly_def month_keys_def month_summary_def year_month_def decimal.simps)

text \<open>
  C4. For every series, valid or not, the totals of the monthly summaries add up to the
  usage of all readings and their reading counts to the number of readings. There is
  one summary per \<^verbatim>\<open>(year, month)\<close> present in the series, labelled by it, in strictly
  ascending, that is chronological, order; every summary counts at least one reading,
  and the month of every reading has its summary, also when it is the only reading of
  the month.
\<close>

theorem monthly_lossless:
  "sum_list (map total_kwh (monthly label series)) = sum_list (map usage_kwh series)
   \<and> sum_list (map reading_count (monthly label series)) = length series
   \<and> map period_label (monthly label series) = map label (month_keys series)
   \<and> sorted_wrt (<) (month_keys series)
   \<and> set (month_keys series) = year_month ` set series
   \<and> (\<forall>m \<in> set (monthly label series). 1 \<le> reading_count m)
   \<and> (\<forall>r \<in> set series. month_summary label series (year_month r) \<in> set (monthly label series))"
proof -
  have lab: "map period_label (monthly label series) = map label (month_keys series)"
    by (simp add: monthly_def month_summary_def comp_def)
  have mem: "\<forall>r \<in> set series. month_summary label series (year_month r) \<in> set (monthly label series)"
    by (simp add: monthly_def month_keys_set)
  show ?thesis
    using monthly_total monthly_count lab month_keys_sorted month_keys_set
      monthly_nonempty_groups mem
    by blast
qed

theorem monthly_lossless_witness:
  "sum_list (map total_kwh
      (monthly (\<lambda>k. decimal (fst k) @ ''-'' @ decimal (snd k))
         [\<lparr>date = (2024, 1, 30), usage_kwh = 10\<rparr>,
          \<lparr>date = (2024, 1, 31), usage_kwh = 12\<rparr>,
          \<lparr>date = (2024, 2, 1), usage_kwh = 7\<rparr>])) = 29
   \<and> month_summary (\<lambda>k. decimal (fst k) @ ''-'' @ decimal (snd k))
         [\<lparr>date = (2024, 1, 30), usage_kwh = 10\<rparr>,
          \<lparr>date = (2024, 1, 31), usage_kwh = 12\<rparr>,
          \<lparr>date = (2024, 2, 1), usage_kwh = 7\<rparr>] (2024, 2)
     \<in> set (monthly (\<lambda>k. decimal (fst k) @ ''-'' @ decimal (snd k))
         [\<lparr>date = (2024, 1, 30), usage_kwh = 10\<rparr>,
          \<lparr>date = (2024, 1, 31), usage_kwh = 12\<rparr>,
          \<lparr>date = (2024, 2, 1), usage_kwh = 7\<rparr>])
   \<and> reading_count (month_summary (\<lambda>k. decimal (fst k) @ ''-'' @ decimal (snd k))
         [\<lparr>date = (2024, 1, 30), usage_kwh = 10\<rparr>,
          \<lparr>date = (2024, 1, 31), usage_kwh = 12\<rparr>,
          \<lparr>date = (2024, 2, 1), usage_kwh = 7\<rparr>] (2024, 2)) = 1"
  using monthly_lossless
    [of "\<lambda>k. decimal (fst k) @ ''-'' @ decimal (snd k)"
        "[\<lparr>date = (2024, 1, 30), usage_kwh = 10\<rparr>,
          \<lparr>date = (2024, 1, 31), usage_kwh = 12\<rparr>,
          \<lparr>date = (2024, 2, 1), usage_kwh = 7\<rparr>]"]
  by (simp add: month_summary_def year_month_def)

section \<open>Properties of the series constructor\<close>

lemma those_map_Some:
  "those (map f xs) = Some ys \<Longrightarrow> length ys = length xs \<and> (\<forall>i < length xs. f (xs ! i) = Some (ys ! i))"
proof (induction xs arbitrary: ys)
  case Nil
  then show ?case by simp
next
  case (Cons x xs)
  from Cons.prems obtain y zs where y: "f x = Some y" and zs: "those (map f xs) = Some zs"
    and ys: "ys = y # zs"
    by (auto split: option.splits)
  from Cons.IH[OF zs] y ys show ?case
    by (auto simp: nth_Cons split: nat.splits)
qed


lemma validate_row_date: "validate_row pd row = Some r \<Longrightarrow> pd (fst row) = Some (date r) \<and> 0 \<le> usage_kwh r"
  by (auto simp: validate_row_def split: option.splits if_splits)


lemma UsageSeries_construct_valid:
  assumes "UsageSeries_construct pd rows = Inr series"
  shows "valid_series series"
proof -
  from assms obtain readings where r: "those (map (validate_row pd) rows) = Some readings"
    and d: "distinct (map date readings)" and s: "series = sort_key date readings"
    by (auto simp: UsageSeries_construct_def split: option.splits if_splits)
  note t = those_map_Some[OF r]
  have "0 \<le> usage_kwh x" if "x \<in> set readings" for x
  proof -
    from that obtain i where "i < length readings" "x = readings ! i"
      by (auto simp: in_set_conv_nth)
    then show ?thesis using t validate_row_date[of pd "rows ! i" x] by simp
  qed
  then have nn: "list_all (\<lambda>r. 0 \<le> usage_kwh r) series"
    by (simp add: s list_all_iff)
  have "distinct (map date (sort_key date readings))"
    using d by (simp add: distinct_map)
  then have "sorted_wrt (<) (map date series)"
    by (simp add: s strict_sorted_iff)
  with nn show ?thesis by (simp add: valid_series_def)
qed

text \<open>Two well-formed rows out of order: the series is returned sorted by date.\<close>

lemma UsageSeries_construct_example:
  "UsageSeries_construct (map_of [(''2024-01-01'', (2024, 1, 1)), (''2024-01-02'', (2024, 1, 2))])
     [(''2024-01-02'', Some 3), (''2024-01-01'', Some 10)]
   = Inr [\<lparr>date = (2024, 1, 1), usage_kwh = 10\<rparr>, \<lparr>date = (2024, 1, 2), usage_kwh = 3\<rparr>]"
  by (simp add: UsageSeries_construct_def validate_row_def)






section \<open>Properties of the plan recommender\<close>

lemma rank_plans_sorted: "sorted (map (rank_key profile) (rank_plans profile catalog))"
  by (simp add: rank_plans_def)

lemma rank_plans_mset: "mset (rank_plans profile catalog) = mset catalog"
  by (simp add: rank_plans_def)

lemma rank_plans_order:
  assumes "i < length (rank_plans profile catalog)" "j < length (rank_plans profile catalog)"
    and "rank_key profile (rank_plans profile catalog ! i) < rank_key profile (rank_plans profile catalog ! j)"
  shows "i < j"
proof (rule ccontr)
  assume "\<not> i < j"
  then have "j \<le> i" by simp
  then have "map (rank_key profile) (rank_plans profile catalog) ! j
           \<le> map (rank_key profile) (rank_plans profile catalog) ! i"
    using rank_plans_sorted[of profile catalog] assms(1)
    by (simp add: sorted_iff_nth_mono)
  then show False using assms by simp
qed

text \<open>
  C1. The estimated monthly cost of a plan is its monthly price when it has no rate, and
  fee plus rate times the average monthly usage when it has both. The ranking is a
  permutation of the catalog sorted ascending by cost and then name: a plan of strictly
  lower cost stands before one of higher cost, and of two plans of equal cost the one
  whose name is lexicographically smaller stands first. The recommender returns the
  first three plans of the ranking, a slot being absent when the ranking is shorter. For
  the catalog of plan A (rate 0.10, fee 10) and plan B (monthly price 60) at 400 kWh a
  month, whatever the fields the scenario leaves open, the result is A, B, absent.
\<close>

theorem PlanRecommender_ranks_by_estimated_cost:
  "(rate_kwh p = None \<longrightarrow> estimated_monthly_cost profile p = monthly_price p)
   \<and> (rate_kwh p = Some rate \<and> base_fee p = Some fee \<longrightarrow>
        estimated_monthly_cost profile p = fee + rate * average_monthly_kwh profile)
   \<and> mset (rank_plans profile catalog) = mset catalog
   \<and> sorted (map (rank_key profile) (rank_plans profile catalog))
   \<and> (\<forall>i j. i < length catalog \<and> j < length catalog
          \<and> estimated_monthly_cost profile (rank_plans profile catalog ! i)
              < estimated_monthly_cost profile (rank_plans profile catalog ! j)
        \<longrightarrow> i < j)
   \<and> (\<forall>i j. i < length catalog \<and> j < length catalog
          \<and> estimated_monthly_cost profile (rank_plans profile catalog ! i)
              = estimated_monthly_cost profile (rank_plans profile catalog ! j)
          \<and> name (rank_plans profile catalog ! i) < name (rank_plans profile catalog ! j)
        \<longrightarrow> i < j)
   \<and> PlanRecommender profile catalog =
        \<lparr>best_plan = slot (rank_plans profile catalog) 0,
         second_best = slot (rank_plans profile catalog) 1,
         third_best = slot (rank_plans profile catalog) 2\<rparr>
   \<and> (\<forall>daily price_a features_a features_b.
        PlanRecommender \<lparr>average_daily_kwh = daily, average_monthly_kwh = 400\<rparr>
          [\<lparr>name = ''A'', monthly_price = price_a, features = features_a,
            rate_kwh = Some (1 / 10), base_fee = Some 10\<rparr>,
           \<lparr>name = ''B'', monthly_price = 60, features = features_b,
            rate_kwh = None, base_fee = None\<rparr>]
        = \<lparr>best_plan = Some \<lparr>name = ''A'', monthly_price = price_a, features = features_a,
                              rate_kwh = Some (1 / 10), base_fee = Some 10\<rparr>,
           second_best = Some \<lparr>name = ''B'', monthly_price = 60, features = features_b,
                              rate_kwh = None, base_fee = None\<rparr>,
           third_best = None\<rparr>)"
proof -
  have len: "length (rank_plans profile catalog) = length catalog"
    by (simp add: rank_plans_def)
  have c1: "rate_kwh p = None \<longrightarrow> estimated_monthly_cost profile p = monthly_price p"
    by (simp add: estimated_monthly_cost_def)
  have c2: "rate_kwh p = Some rate \<and> base_fee p = Some fee \<longrightarrow>
        estimated_monthly_cost profile p = fee + rate * average_monthly_kwh profile"
    by (simp add: estimated_monthly_cost_def)
  have o1: "\<forall>i j. i < length catalog \<and> j < length catalog
          \<and> estimated_monthly_cost profile (rank_plans profile catalog ! i)
              < estimated_monthly_cost profile (rank_plans profile catalog ! j)
        \<longrightarrow> i < j"
    using rank_plans_order[of _ profile catalog] by (simp add: len rank_key_def)
  have o2: "\<forall>i j. i < length catalog \<and> j < length catalog
          \<and> estimated_monthly_cost profile (rank_plans profile catalog ! i)
              = estimated_monthly_cost profile (rank_plans profile catalog ! j)
          \<and> name (rank_plans profile catalog ! i) < name (rank_plans profile catalog ! j)
        \<longrightarrow> i < j"
    using rank_plans_order[of _ profile catalog] by (simp add: len rank_key_def)
  have r: "PlanRecommender profile catalog =
        \<lparr>best_plan = slot (rank_plans profile catalog) 0,
         second_best = slot (rank_plans profile catalog) 1,
         third_best = slot (rank_plans profile catalog) 2\<rparr>"
    by (simp add: PlanRecommender_def Let_def)
  have sc: "\<forall>daily price_a features_a features_b.
        PlanRecommender \<lparr>average_daily_kwh = daily, average_monthly_kwh = 400\<rparr>
          [\<lparr>name = ''A'', monthly_price = price_a, features = features_a,
            rate_kwh = Some (1 / 10), base_fee = Some 10\<rparr>,
           \<lparr>name = ''B'', monthly_price = 60, features = features_b,
            rate_kwh = None, base_fee = None\<rparr>]
        = \<lparr>best_plan = Some \<lparr>name = ''A'', monthly_price = price_a, features = features_a,
                              rate_kwh = Some (1 / 10), base_fee = Some 10\<rparr>,
           second_best = Some \<lparr>name = ''B'', monthly_price = 60, features = features_b,
                              rate_kwh = None, base_fee = None\<rparr>,
           third_best = None\<rparr>"
    by (simp add: PlanRecommender_def rank_plans_def rank_key_def estimated_monthly_cost_def slot_def)
  from c1 c2 rank_plans_mset rank_plans_sorted o1 o2 r sc show ?thesis by blast
qed

text \<open>The scenario with the catalog given in the other order: costs 50 and 60, and A
  still first.\<close>

theorem PlanRecommender_ranks_by_estimated_cost_witness:
  "estimated_monthly_cost \<lparr>average_daily_kwh = 13, average_monthly_kwh = 400\<rparr>
     \<lparr>name = ''A'', monthly_price = 0, features = [], rate_kwh = Some (1 / 10), base_fee = Some 10\<rparr> = 50
   \<and> estimated_monthly_cost \<lparr>average_daily_kwh = 13, average_monthly_kwh = 400\<rparr>
     \<lparr>name = ''B'', monthly_price = 60, features = [], rate_kwh = None, base_fee = None\<rparr> = 60
   \<and> PlanRecommender \<lparr>average_daily_kwh = 13, average_monthly_kwh = 400\<rparr>
       [\<lparr>name = ''B'', monthly_price = 60, features = [], rate_kwh = None, base_fee = None\<rparr>,
        \<lparr>name = ''A'', monthly_price = 0, features = [], rate_kwh = Some (1 / 10), base_fee = Some 10\<rparr>]
     = \<lparr>best_plan = Some \<lparr>name = ''A'', monthly_price = 0, features = [],
                           rate_kwh = Some (1 / 10), base_fee = Some 10\<rparr>,
        second_best = Some \<lparr>name = ''B'', monthly_price = 60, features = [],
                             rate_kwh = None, base_fee = None\<rparr>,
        third_best = None\<rparr>"
proof -
  let ?prof = "\<lparr>average_daily_kwh = 13, average_monthly_kwh = 400\<rparr>"
  let ?A = "\<lparr>name = ''A'', monthly_price = 0, features = [], rate_kwh = Some (1 / 10), base_fee = Some 10\<rparr>"
  let ?B = "\<lparr>name = ''B'', monthly_price = 60, features = [], rate_kwh = None, base_fee = None\<rparr>"
  note ta = PlanRecommender_ranks_by_estimated_cost
    [where p = ?A and rate = "1 / 10" and fee = 10 and profile = ?prof and catalog = "[?B, ?A]"]
  note tb = PlanRecommender_ranks_by_estimated_cost
    [where p = ?B and profile = ?prof and catalog = "[?B, ?A]"]
  have a: "estimated_monthly_cost ?prof ?A = 50"
    using ta[THEN conjunct2, THEN conjunct1] by simp
  have b: "estimated_monthly_cost ?prof ?B = 60"
    using tb[THEN conjunct1] by simp
  have key: "rank_key ?prof ?A = (50, ''A'')" "rank_key ?prof ?B = (60, ''B'')"
    using a b by (simp_all add: rank_key_def)
  have rk: "rank_plans ?prof [?B, ?A] = [?A, ?B]"
    by (simp add: rank_plans_def key)
  have r: "PlanRecommender ?prof [?B, ?A] =
        \<lparr>best_plan = slot (rank_plans ?prof [?B, ?A]) 0,
         second_best = slot (rank_plans ?prof [?B, ?A]) 1,
         third_best = slot (rank_plans ?prof [?B, ?A]) 2\<rparr>"
    using ta by blast
  show ?thesis
    unfolding r rk using a b by (simp add: slot_def)
qed

text \<open>Where no two plans of the catalog have the same cost and name, the ranking does
  not depend on the order in which the catalog lists them.\<close>

lemma rank_plans_permutation_invariant:
  assumes "mset c1 = mset c2" "inj_on (rank_key profile) (set c1)"
  shows "rank_plans profile c1 = rank_plans profile c2"
proof -
  have "mset c1 = mset (sort_key (rank_key profile) c2)"
    using assms(1) by simp
  then have "sort_key (rank_key profile) c1 = sort_key (rank_key profile) c2"
    using assms(2) by (rule sort_key_inj_key_eq) simp
  then show ?thesis by (simp add: rank_plans_def)
qed

end
